theory Spec2Isabelle
  imports Main
begin

section \<open>JavaScript values used by the indexer\<close>

text \<open>
  \<^verbatim>\<open>String.prototype.toLowerCase\<close> on the strings the handlers receive: chain
  addresses are ASCII (\<^verbatim>\<open>0x\<close> followed by hexadecimal digits, possibly in checksum
  case), so the model lower-cases the letters A to Z and leaves every other byte alone.
\<close>

definition toLowerCase_char :: "char \<Rightarrow> char" where
  "toLowerCase_char c =
     (let n = (of_char c :: nat) in if 65 \<le> n \<and> n \<le> 90 then char_of (n + 32) else c)"

definition toLowerCase :: "string \<Rightarrow> string" where
  "toLowerCase s = map toLowerCase_char s"

text \<open>
  \<^verbatim>\<open>Number(x)\<close> for a BigInt \<open>x\<close>: the nearest IEEE double, ties to even. Event
  integers are Solidity unsigned integers of at most 256 bits, far below the overflow to
  Infinity, so the result is again a natural number.
\<close>

fun bitlen :: "nat \<Rightarrow> nat" where
  "bitlen n = (if n = 0 then 0 else Suc (bitlen (n div 2)))"

declare bitlen.simps [simp del]

definition Number_of :: "nat \<Rightarrow> nat" where
  "Number_of n =
     (if n < 2 ^ 53 then n
      else let e = bitlen n - 53; q = n div 2 ^ e; r = n mod 2 ^ e; h = 2 ^ (e - 1)
           in (if r < h \<or> (r = h \<and> even q) then q else q + 1) * 2 ^ e)"

text \<open>
  \<^verbatim>\<open>new Date(ms)\<close>: a time value beyond 8.64e15 milliseconds is an invalid date.
  The argument is always \<^verbatim>\<open>n * 1000\<close> for a Number \<open>n\<close> that is a natural number; the
  double product is exact whenever it is within the valid range, and beyond the range on
  either reading otherwise.
\<close>

datatype js_date = Date nat | InvalidDate

definition new_Date :: "nat \<Rightarrow> js_date" where
  "new_Date ms = (if ms \<le> 8640000000000000 then Date ms else InvalidDate)"

section \<open>The off-chain store\<close>

text \<open>
  One list of documents per collection, in insertion order. The schemas of the six models
  are declared outside the indexer; a document carries the fields that the handlers read
  or write. Fields that an upsert of the indexer leaves unset are optional.
\<close>

record registration_request =
  rr_requestId :: nat
  rr_hospitalName :: string
  rr_requesterAddress :: string
  rr_status :: string

record hospital =
  h_hospitalId :: nat
  h_name :: string
  h_adminAddress :: string
  h_isVerified :: bool
  h_status :: string

record user =
  u_address :: string
  u_name :: string
  u_role :: string
  u_professionalStatus :: string
  u_isVerified :: bool
  u_hospitalId :: "nat option"
  u_requestedHospitalId :: "nat option"
  u_publicKey :: "string option"

record record_doc =
  r_recordId :: nat
  r_owner :: string
  r_title :: string
  r_ipfsHash :: string
  r_category :: string
  r_isVerified :: bool
  r_uploadedBy :: string
  r_timestamp :: js_date

record access_request =
  ar_requestId :: nat
  ar_recordIds :: "nat list"
  ar_professionalAddress :: string
  ar_patientAddress :: string
  ar_status :: string

record access_grant =
  g_recordId :: nat
  g_patientAddress :: string
  g_professionalAddress :: string
  g_expirationTimestamp :: js_date
  g_rewrappedKey :: string
  g_createdAt :: js_date

datatype level = Info | Warn | Error

datatype frag = Str string | Num nat | Nums "nat list"

record log_entry =
  lvl :: level
  msg :: "frag list"
  tx :: "string option"

record state =
  requests :: "registration_request list"
  hospitals :: "hospital list"
  users :: "user list"
  records :: "record_doc list"
  accessRequests :: "access_request list"
  grants :: "access_grant list"
  log :: "log_entry list"

text \<open>The projected store: the six collections, without the log.\<close>

definition db :: "state \<Rightarrow> registration_request list \<times> hospital list \<times> user list \<times>
    record_doc list \<times> access_request list \<times> access_grant list" where
  "db s = (requests s, hospitals s, users s, records s, accessRequests s, grants s)"

subsection \<open>Store operations\<close>

text \<open>
  \<^verbatim>\<open>findOneAndUpdate(filter, update)\<close> changes the first document that matches the
  filter and returns it as updated (\<^verbatim>\<open>new: true\<close>), or returns null and changes
  nothing. With \<^verbatim>\<open>upsert: true\<close> a missing document is inserted, built from the
  filter and the update. \<^verbatim>\<open>updateMany\<close> changes every match and reports how many
  documents it really modified; \<^verbatim>\<open>deleteMany\<close> removes every match.
\<close>

fun updateOne :: "('d \<Rightarrow> bool) \<Rightarrow> ('d \<Rightarrow> 'd) \<Rightarrow> 'd list \<Rightarrow> 'd list" where
  "updateOne p f [] = []"
| "updateOne p f (d # ds) = (if p d then f d # ds else d # updateOne p f ds)"

definition findOneAndUpdate :: "('d \<Rightarrow> bool) \<Rightarrow> ('d \<Rightarrow> 'd) \<Rightarrow> 'd list \<Rightarrow> 'd option \<times> 'd list" where
  "findOneAndUpdate p f ds = (map_option f (find p ds), updateOne p f ds)"

definition findOneAndUpsert :: "('d \<Rightarrow> bool) \<Rightarrow> ('d \<Rightarrow> 'd) \<Rightarrow> 'd \<Rightarrow> 'd list \<Rightarrow> 'd list" where
  "findOneAndUpsert p f ins ds =
     (case find p ds of None \<Rightarrow> ds @ [ins] | Some d \<Rightarrow> updateOne p f ds)"

definition updateMany :: "('d \<Rightarrow> bool) \<Rightarrow> ('d \<Rightarrow> 'd) \<Rightarrow> 'd list \<Rightarrow> nat \<times> 'd list" where
  "updateMany p f ds =
     (length (filter (\<lambda>d. p d \<and> f d \<noteq> d) ds), map (\<lambda>d. if p d then f d else d) ds)"

definition deleteMany :: "('d \<Rightarrow> bool) \<Rightarrow> 'd list \<Rightarrow> 'd list" where
  "deleteMany p ds = filter (\<lambda>d. \<not> p d) ds"

section \<open>The environment of a handler invocation\<close>

text \<open>
  A handler awaits store operations, a contract read and a block lookup. \<open>rejects k\<close>
  tells whether the \<open>k\<close>-th awaited operation of the invocation rejects, and with which
  error message; \<open>httpContract_users\<close> is the public key the contract holds for an
  address (empty when there is none).
\<close>

record env =
  rejects :: "nat \<Rightarrow> string option"
  httpContract_users :: "string \<Rightarrow> string"

record block =
  timestamp :: nat

text \<open>
  The last argument of every listener is the payload of the chain client. The handlers
  read its property \<^verbatim>\<open>transactionHash\<close> and call its method
  \<^verbatim>\<open>getBlock()\<close>. A property that the payload does not have reads as
  undefined, which is \<open>None\<close> here. The client that the indexer constructs
  (\<^verbatim>\<open>ethers.WebSocketProvider\<close>, \<^verbatim>\<open>ethers.JsonRpcProvider\<close>: ethers
  version 6) passes a \<^verbatim>\<open>ContractEventPayload\<close>: it keeps the hash of the transaction
  in its log, at \<^verbatim>\<open>event.log.transactionHash\<close>, and has no property
  \<^verbatim>\<open>transactionHash\<close> of its own.
\<close>

record event =
  transactionHash :: "string option"
  log_transactionHash :: string
  getBlock :: "block option"

definition ContractEventPayload :: "string \<Rightarrow> block option \<Rightarrow> event" where
  "ContractEventPayload h b = \<lparr>transactionHash = None, log_transactionHash = h, getBlock = b\<rparr>"

text \<open>A value inside a template literal: undefined prints as the word.\<close>

definition js_string :: "string option \<Rightarrow> string" where
  "js_string v = (case v of None \<Rightarrow> ''undefined'' | Some x \<Rightarrow> x)"

definition no_faults :: "(string \<Rightarrow> string) \<Rightarrow> env" where
  "no_faults chain = \<lparr>rejects = (\<lambda>k. None), httpContract_users = chain\<rparr>"

definition logger_info :: "frag list \<Rightarrow> state \<Rightarrow> state" where
  "logger_info m s = s\<lparr>log := log s @ [\<lparr>lvl = Info, msg = m, tx = None\<rparr>]\<rparr>"

definition logger_warn :: "frag list \<Rightarrow> string option \<Rightarrow> state \<Rightarrow> state" where
  "logger_warn m t s = s\<lparr>log := log s @ [\<lparr>lvl = Warn, msg = m, tx = t\<rparr>]\<rparr>"

definition logger_error :: "frag list \<Rightarrow> string option \<Rightarrow> state \<Rightarrow> state" where
  "logger_error m t s = s\<lparr>log := log s @ [\<lparr>lvl = Error, msg = m, tx = t\<rparr>]\<rparr>"

text \<open>
  The result of an asynchronous handler: its promise resolves or rejects. The body of a
  \<^verbatim>\<open>try\<close> block returns the message of the exception that leaves it, if any, and the
  state reached by then; \<^verbatim>\<open>catch\<close> runs the handler's logging on that state.
\<close>

datatype outcome = Resolved | Rejected string

definition try_catch :: "(state \<Rightarrow> string option \<times> state) \<Rightarrow> (string \<Rightarrow> state \<Rightarrow> state) \<Rightarrow>
    state \<Rightarrow> outcome \<times> state" where
  "try_catch body handler s =
     (case body s of (None, s') \<Rightarrow> (Resolved, s') | (Some e, s') \<Rightarrow> (Resolved, handler e s'))"

section \<open>The event handlers\<close>

text \<open>
  Each handler is a \<^verbatim>\<open>try\<close> block (\<open>_try\<close>) wrapped in its own \<^verbatim>\<open>catch\<close>,
  which logs the error with \<^verbatim>\<open>tx: event.transactionHash\<close>.
\<close>

definition handleRegistrationRequested_try :: "nat \<Rightarrow> string \<Rightarrow> string \<Rightarrow> event \<Rightarrow> env \<Rightarrow>
    state \<Rightarrow> string option \<times> state" where
  "handleRegistrationRequested_try requestId hospitalName requesterAddress ev en s =
     (let numericRequestId = Number_of requestId;
          s1 = logger_info [Str ''[Event] RegistrationRequested: ID '', Num numericRequestId,
                 Str '' for '', Str hospitalName] s
      in case rejects en 0 of
           Some e \<Rightarrow> (Some e, s1)
         | None \<Rightarrow>
             (None, s1\<lparr>requests := findOneAndUpsert
                (\<lambda>d. rr_requestId d = numericRequestId)
                (\<lambda>d. d\<lparr>rr_requestId := numericRequestId, rr_hospitalName := hospitalName,
                        rr_requesterAddress := requesterAddress,
                        rr_status := ''pending_hospital''\<rparr>)
                \<lparr>rr_requestId = numericRequestId, rr_hospitalName = hospitalName,
                  rr_requesterAddress = requesterAddress, rr_status = ''pending_hospital''\<rparr>
                (requests s1)\<rparr>))"

definition handleRegistrationRequested :: "nat \<Rightarrow> string \<Rightarrow> string \<Rightarrow> event \<Rightarrow> env \<Rightarrow>
    state \<Rightarrow> outcome \<times> state" where
  "handleRegistrationRequested requestId hospitalName requesterAddress ev en =
     try_catch (handleRegistrationRequested_try requestId hospitalName requesterAddress ev en)
       (\<lambda>e. logger_error [Str ''Error processing RegistrationRequested (ID: '', Num requestId,
                Str ''): '', Str e] (transactionHash ev))"

definition handleHospitalVerified_try :: "nat \<Rightarrow> string \<Rightarrow> event \<Rightarrow> env \<Rightarrow>
    state \<Rightarrow> string option \<times> state" where
  "handleHospitalVerified_try hospitalId adminAddress ev en s =
     (let numericHospitalId = Number_of hospitalId;
          s1 = logger_info [Str ''[Event] HospitalVerified: ID '', Num numericHospitalId,
                 Str '' for admin '', Str adminAddress, Str ''.''] s
      in case rejects en 0 of
           Some e \<Rightarrow> (Some e, s1)
         | None \<Rightarrow>
            (let found = findOneAndUpdate
                   (\<lambda>d. rr_requestId d = numericHospitalId \<and> rr_status d = ''verifying'')
                   (\<lambda>d. d\<lparr>rr_status := ''approved''\<rparr>) (requests s1);
                 s2 = s1\<lparr>requests := snd found\<rparr>
             in case fst found of
                  None \<Rightarrow>
                    (None, logger_warn [Str ''[Indexer] Did not find a VERIFYING request for ID '',
                        Num numericHospitalId, Str ''.''] (transactionHash ev) s2)
                | Some updatedRequest \<Rightarrow>
                   (let hospitalName = rr_hospitalName updatedRequest
                    in case rejects en 1 of
                         Some e \<Rightarrow> (Some e, s2)
                       | None \<Rightarrow>
                          (let s3 = s2\<lparr>hospitals := findOneAndUpsert
                                 (\<lambda>d. h_hospitalId d = numericHospitalId)
                                 (\<lambda>d. d\<lparr>h_hospitalId := numericHospitalId, h_name := hospitalName,
                                         h_adminAddress := adminAddress, h_isVerified := True,
                                         h_status := ''active''\<rparr>)
                                 \<lparr>h_hospitalId = numericHospitalId, h_name = hospitalName,
                                   h_adminAddress = adminAddress, h_isVerified = True,
                                   h_status = ''active''\<rparr>
                                 (hospitals s2)\<rparr>
                           in case rejects en 2 of
                                Some e \<Rightarrow> (Some e, s3)
                              | None \<Rightarrow>
                                 (None, s3\<lparr>users := findOneAndUpsert
                                    (\<lambda>d. u_address d = toLowerCase adminAddress)
                                    (\<lambda>d. d\<lparr>u_address := toLowerCase adminAddress,
                                            u_name := ''Admin for '' @ hospitalName,
                                            u_role := ''HospitalAdmin'',
                                            u_professionalStatus := ''approved'',
                                            u_isVerified := True,
                                            u_hospitalId := Some numericHospitalId\<rparr>)
                                    \<lparr>u_address = toLowerCase adminAddress,
                                      u_name = ''Admin for '' @ hospitalName,
                                      u_role = ''HospitalAdmin'',
                                      u_professionalStatus = ''approved'',
                                      u_isVerified = True,
                                      u_hospitalId = Some numericHospitalId,
                                      u_requestedHospitalId = None,
                                      u_publicKey = None\<rparr>
                                    (users s3)\<rparr>)))))"

definition handleHospitalVerified :: "nat \<Rightarrow> string \<Rightarrow> event \<Rightarrow> env \<Rightarrow> state \<Rightarrow> outcome \<times> state" where
  "handleHospitalVerified hospitalId adminAddress ev en =
     try_catch (handleHospitalVerified_try hospitalId adminAddress ev en)
       (\<lambda>e. logger_error [Str ''Error processing HospitalVerified (ID: '', Num hospitalId,
                Str ''): '', Str e] (transactionHash ev))"

definition handleHospitalRevoked_try :: "nat \<Rightarrow> event \<Rightarrow> env \<Rightarrow> state \<Rightarrow> string option \<times> state" where
  "handleHospitalRevoked_try hospitalId ev en s =
     (let numericHospitalId = Number_of hospitalId;
          s1 = logger_info [Str ''[Event] HospitalRevoked: ID '', Num numericHospitalId, Str ''.''] s
      in case rejects en 0 of
           Some e \<Rightarrow> (Some e, s1)
         | None \<Rightarrow>
            (let s2 = s1\<lparr>hospitals := snd (findOneAndUpdate
                        (\<lambda>d. h_hospitalId d = numericHospitalId \<and> h_status d = ''revoking'')
                        (\<lambda>d. d\<lparr>h_status := ''revoked'', h_isVerified := False\<rparr>)
                        (hospitals s1))\<rparr>
             in case rejects en 1 of
                  Some e \<Rightarrow> (Some e, s2)
                | None \<Rightarrow>
                   (let updateResult = updateMany
                          (\<lambda>d. u_hospitalId d = Some numericHospitalId)
                          (\<lambda>d. d\<lparr>u_professionalStatus := ''revoked'', u_isVerified := False\<rparr>)
                          (users s2);
                        modifiedCount = fst updateResult;
                        s3 = s2\<lparr>users := snd updateResult\<rparr>
                    in if modifiedCount > 0
                       then (None, logger_info [Str ''[Cascading Revoke] Revoked '', Num modifiedCount,
                               Str '' professionals for Hospital ID '', Num numericHospitalId,
                               Str ''.''] s3)
                       else (None, s3))))"

definition handleHospitalRevoked :: "nat \<Rightarrow> event \<Rightarrow> env \<Rightarrow> state \<Rightarrow> outcome \<times> state" where
  "handleHospitalRevoked hospitalId ev en =
     try_catch (handleHospitalRevoked_try hospitalId ev en)
       (\<lambda>e. logger_error [Str ''Error processing HospitalRevoked (ID: '', Num hospitalId,
                Str ''): '', Str e] (transactionHash ev))"

definition roleEnumToString :: "nat \<Rightarrow> string" where
  "roleEnumToString r =
     (if r = 1 then ''Doctor'' else if r = 7 then ''LabTechnician''
      else ''Unassigned Professional'')"

definition handleRoleAssigned_try :: "string \<Rightarrow> nat \<Rightarrow> nat \<Rightarrow> event \<Rightarrow> env \<Rightarrow>
    state \<Rightarrow> string option \<times> state" where
  "handleRoleAssigned_try userAddress role hospitalId ev en s =
     (let roleName = roleEnumToString (Number_of role);
          s1 = logger_info [Str ''[Event] RoleAssigned: '', Str roleName, Str '' to '',
                 Str userAddress, Str '' for Hospital ID '', Num hospitalId] s
      in case rejects en 0 of
           Some e \<Rightarrow> (Some e, s1)
         | None \<Rightarrow>
            (None, s1\<lparr>users := snd (findOneAndUpdate
               (\<lambda>d. u_address d = toLowerCase userAddress)
               (\<lambda>d. d\<lparr>u_role := roleName, u_hospitalId := Some (Number_of hospitalId),
                       u_professionalStatus := ''approved'', u_isVerified := True\<rparr>)
               (users s1))\<rparr>))"

definition handleRoleAssigned :: "string \<Rightarrow> nat \<Rightarrow> nat \<Rightarrow> event \<Rightarrow> env \<Rightarrow> state \<Rightarrow> outcome \<times> state" where
  "handleRoleAssigned userAddress role hospitalId ev en =
     try_catch (handleRoleAssigned_try userAddress role hospitalId ev en)
       (\<lambda>e. logger_error [Str ''Error processing RoleAssigned (User: '', Str userAddress,
                Str ''): '', Str e] (transactionHash ev))"

definition handleRoleRevoked_try :: "string \<Rightarrow> event \<Rightarrow> env \<Rightarrow> state \<Rightarrow> string option \<times> state" where
  "handleRoleRevoked_try userAddress ev en s =
     (let s1 = logger_info [Str ''[Event] RoleRevoked from '', Str userAddress] s
      in case rejects en 0 of
           Some e \<Rightarrow> (Some e, s1)
         | None \<Rightarrow>
            (None, s1\<lparr>users := snd (findOneAndUpdate
               (\<lambda>d. u_address d = toLowerCase userAddress)
               (\<lambda>d. d\<lparr>u_role := ''Patient'', u_professionalStatus := ''revoked'',
                       u_isVerified := False, u_hospitalId := None,
                       u_requestedHospitalId := None\<rparr>)
               (users s1))\<rparr>))"

definition handleRoleRevoked :: "string \<Rightarrow> event \<Rightarrow> env \<Rightarrow> state \<Rightarrow> outcome \<times> state" where
  "handleRoleRevoked userAddress ev en =
     try_catch (handleRoleRevoked_try userAddress ev en)
       (\<lambda>e. logger_error [Str ''Error processing RoleRevoked (User: '', Str userAddress,
                Str ''): '', Str e] (transactionHash ev))"

definition handlePublicKeySaved_try :: "string \<Rightarrow> event \<Rightarrow> env \<Rightarrow> state \<Rightarrow> string option \<times> state" where
  "handlePublicKeySaved_try userAddress ev en s =
     (let s1 = logger_info [Str ''[Event] PublicKeySaved: for user '', Str userAddress] s
      in case rejects en 0 of
           Some e \<Rightarrow> (Some e, s1)
         | None \<Rightarrow>
            (let publicKey = httpContract_users en userAddress
             in if publicKey \<noteq> [] \<and> length publicKey > 0
                then (case rejects en 1 of
                        Some e \<Rightarrow> (Some e, s1)
                      | None \<Rightarrow>
                         (None, s1\<lparr>users := snd (findOneAndUpdate
                            (\<lambda>d. u_address d = toLowerCase userAddress)
                            (\<lambda>d. d\<lparr>u_publicKey := Some publicKey\<rparr>)
                            (users s1))\<rparr>))
                else (None, s1)))"

definition handlePublicKeySaved :: "string \<Rightarrow> event \<Rightarrow> env \<Rightarrow> state \<Rightarrow> outcome \<times> state" where
  "handlePublicKeySaved userAddress ev en =
     try_catch (handlePublicKeySaved_try userAddress ev en)
       (\<lambda>e. logger_error [Str ''Error processing PublicKeySaved (User: '', Str userAddress,
                Str ''): '', Str e] (transactionHash ev))"

definition handleRecordAdded_try :: "nat \<Rightarrow> string \<Rightarrow> string \<Rightarrow> string \<Rightarrow> string \<Rightarrow> bool \<Rightarrow>
    string \<Rightarrow> nat \<Rightarrow> event \<Rightarrow> env \<Rightarrow> state \<Rightarrow> string option \<times> state" where
  "handleRecordAdded_try recordId owner title ipfsHash category isVerified verifiedBy ts ev en s =
     (let numericRecordId = Number_of recordId;
          s1 = logger_info [Str ''[Event] RecordAdded: ID '', Num numericRecordId,
                 Str '' for owner '', Str owner] s
      in case rejects en 0 of
           Some e \<Rightarrow> (Some e, s1)
         | None \<Rightarrow>
            (None, s1\<lparr>records := findOneAndUpsert
               (\<lambda>d. r_recordId d = numericRecordId)
               (\<lambda>d. d\<lparr>r_recordId := numericRecordId, r_owner := toLowerCase owner,
                       r_title := title, r_ipfsHash := ipfsHash, r_category := category,
                       r_isVerified := isVerified, r_uploadedBy := toLowerCase verifiedBy,
                       r_timestamp := new_Date (Number_of ts * 1000)\<rparr>)
               \<lparr>r_recordId = numericRecordId, r_owner = toLowerCase owner,
                 r_title = title, r_ipfsHash = ipfsHash, r_category = category,
                 r_isVerified = isVerified, r_uploadedBy = toLowerCase verifiedBy,
                 r_timestamp = new_Date (Number_of ts * 1000)\<rparr>
               (records s1)\<rparr>))"

definition handleRecordAdded :: "nat \<Rightarrow> string \<Rightarrow> string \<Rightarrow> string \<Rightarrow> string \<Rightarrow> bool \<Rightarrow>
    string \<Rightarrow> nat \<Rightarrow> event \<Rightarrow> env \<Rightarrow> state \<Rightarrow> outcome \<times> state" where
  "handleRecordAdded recordId owner title ipfsHash category isVerified verifiedBy ts ev en =
     try_catch (handleRecordAdded_try recordId owner title ipfsHash category isVerified
                  verifiedBy ts ev en)
       (\<lambda>e. logger_error [Str ''Error processing RecordAdded (ID: '', Num recordId,
                Str ''): '', Str e] (transactionHash ev))"

definition handleProfessionalAccessRequested_try :: "nat \<Rightarrow> nat list \<Rightarrow> string \<Rightarrow> string \<Rightarrow>
    event \<Rightarrow> env \<Rightarrow> state \<Rightarrow> string option \<times> state" where
  "handleProfessionalAccessRequested_try requestId recordIds professional patient ev en s =
     (let numericRequestId = Number_of requestId;
          s1 = logger_info [Str ''[Event] ProfessionalAccessRequested: ID '', Num numericRequestId,
                 Str '' from '', Str professional, Str '' to '', Str patient] s
      in case rejects en 0 of
           Some e \<Rightarrow> (Some e, s1)
         | None \<Rightarrow>
            (None, s1\<lparr>accessRequests := findOneAndUpsert
               (\<lambda>d. ar_requestId d = numericRequestId)
               (\<lambda>d. d\<lparr>ar_requestId := numericRequestId, ar_recordIds := map Number_of recordIds,
                       ar_professionalAddress := toLowerCase professional,
                       ar_patientAddress := toLowerCase patient, ar_status := ''pending''\<rparr>)
               \<lparr>ar_requestId = numericRequestId, ar_recordIds = map Number_of recordIds,
                 ar_professionalAddress = toLowerCase professional,
                 ar_patientAddress = toLowerCase patient, ar_status = ''pending''\<rparr>
               (accessRequests s1)\<rparr>))"

definition handleProfessionalAccessRequested :: "nat \<Rightarrow> nat list \<Rightarrow> string \<Rightarrow> string \<Rightarrow>
    event \<Rightarrow> env \<Rightarrow> state \<Rightarrow> outcome \<times> state" where
  "handleProfessionalAccessRequested requestId recordIds professional patient ev en =
     try_catch (handleProfessionalAccessRequested_try requestId recordIds professional patient ev en)
       (\<lambda>e. logger_error [Str ''Error processing ProfessionalAccessRequested (ID: '', Num requestId,
                Str ''): '', Str e] (transactionHash ev))"

definition handleAccessGranted_try :: "nat \<Rightarrow> string \<Rightarrow> string \<Rightarrow> nat \<Rightarrow> string \<Rightarrow>
    event \<Rightarrow> env \<Rightarrow> state \<Rightarrow> string option \<times> state" where
  "handleAccessGranted_try recordId owner grantee expiration encryptedDek ev en s =
     (case rejects en 0 of
        Some e \<Rightarrow> (Some e, s)
      | None \<Rightarrow>
         (case getBlock ev of
            None \<Rightarrow>
              (None, logger_warn [Str ''Could not fetch block for event at hash: '',
                  Str (js_string (transactionHash ev))] None s)
          | Some blk \<Rightarrow>
             (let eventTimestamp = new_Date (timestamp blk * 1000);
                  numericRecordId = Number_of recordId;
                  s1 = logger_info [Str ''[Event] AccessGranted: Record ID '', Num numericRecordId,
                         Str '' to grantee '', Str grantee] s
              in case rejects en 1 of
                   Some e \<Rightarrow> (Some e, s1)
                 | None \<Rightarrow>
                    (None, s1\<lparr>grants := findOneAndUpsert
                       (\<lambda>d. g_recordId d = numericRecordId \<and>
                             g_professionalAddress d = toLowerCase grantee)
                       (\<lambda>d. d\<lparr>g_recordId := numericRecordId,
                               g_patientAddress := toLowerCase owner,
                               g_professionalAddress := toLowerCase grantee,
                               g_expirationTimestamp := new_Date (Number_of expiration * 1000),
                               g_rewrappedKey := encryptedDek,
                               g_createdAt := eventTimestamp\<rparr>)
                       \<lparr>g_recordId = numericRecordId,
                         g_patientAddress = toLowerCase owner,
                         g_professionalAddress = toLowerCase grantee,
                         g_expirationTimestamp = new_Date (Number_of expiration * 1000),
                         g_rewrappedKey = encryptedDek,
                         g_createdAt = eventTimestamp\<rparr>
                       (grants s1)\<rparr>))))"

definition handleAccessGranted :: "nat \<Rightarrow> string \<Rightarrow> string \<Rightarrow> nat \<Rightarrow> string \<Rightarrow>
    event \<Rightarrow> env \<Rightarrow> state \<Rightarrow> outcome \<times> state" where
  "handleAccessGranted recordId owner grantee expiration encryptedDek ev en =
     try_catch (handleAccessGranted_try recordId owner grantee expiration encryptedDek ev en)
       (\<lambda>e. logger_error [Str ''Error processing AccessGranted (ID: '', Num recordId,
                Str ''): '', Str e] (transactionHash ev))"

definition handleAccessRevoked_try :: "string \<Rightarrow> string \<Rightarrow> nat list \<Rightarrow> event \<Rightarrow> env \<Rightarrow>
    state \<Rightarrow> string option \<times> state" where
  "handleAccessRevoked_try patient professional recordIds ev en s =
     (let numericRecordIds = map Number_of recordIds;
          s1 = logger_info [Str ''[Event] AccessRevoked: Professional '', Str professional,
                 Str '' from records ['', Nums numericRecordIds, Str '']''] s
      in case rejects en 0 of
           Some e \<Rightarrow> (Some e, s1)
         | None \<Rightarrow>
            (None, s1\<lparr>grants := deleteMany
               (\<lambda>d. g_professionalAddress d = toLowerCase professional \<and>
                     g_recordId d \<in> set numericRecordIds)
               (grants s1)\<rparr>))"

definition handleAccessRevoked :: "string \<Rightarrow> string \<Rightarrow> nat list \<Rightarrow> event \<Rightarrow> env \<Rightarrow>
    state \<Rightarrow> outcome \<times> state" where
  "handleAccessRevoked patient professional recordIds ev en =
     try_catch (handleAccessRevoked_try patient professional recordIds ev en)
       (\<lambda>e. logger_error [Str ''Error processing AccessRevoked (User: '', Str professional,
                Str ''): '', Str e] (transactionHash ev))"

subsection \<open>Dispatch\<close>

text \<open>
  The ten events the contract listeners are attached for, with their decoded arguments;
  the event payload is the last argument of every listener.
\<close>

datatype chain_event =
    RegistrationRequested nat string string
  | HospitalVerified nat string
  | HospitalRevoked nat
  | RoleAssigned string nat nat
  | RoleRevoked string
  | PublicKeySaved string
  | RecordAdded nat string string string string bool string nat
  | ProfessionalAccessRequested nat "nat list" string string
  | AccessGranted nat string string nat string
  | AccessRevoked string string "nat list"

fun dispatch :: "chain_event \<Rightarrow> event \<Rightarrow> env \<Rightarrow> state \<Rightarrow> outcome \<times> state" where
  "dispatch (RegistrationRequested i n a) = handleRegistrationRequested i n a"
| "dispatch (HospitalVerified h a) = handleHospitalVerified h a"
| "dispatch (HospitalRevoked h) = handleHospitalRevoked h"
| "dispatch (RoleAssigned u r h) = handleRoleAssigned u r h"
| "dispatch (RoleRevoked u) = handleRoleRevoked u"
| "dispatch (PublicKeySaved u) = handlePublicKeySaved u"
| "dispatch (RecordAdded i ow t ih c v vb ts) = handleRecordAdded i ow t ih c v vb ts"
| "dispatch (ProfessionalAccessRequested i rs p pa) = handleProfessionalAccessRequested i rs p pa"
| "dispatch (AccessGranted i ow g ex k) = handleAccessGranted i ow g ex k"
| "dispatch (AccessRevoked pa p rs) = handleAccessRevoked pa p rs"

fun dispatch_try :: "chain_event \<Rightarrow> event \<Rightarrow> env \<Rightarrow> state \<Rightarrow> string option \<times> state" where
  "dispatch_try (RegistrationRequested i n a) = handleRegistrationRequested_try i n a"
| "dispatch_try (HospitalVerified h a) = handleHospitalVerified_try h a"
| "dispatch_try (HospitalRevoked h) = handleHospitalRevoked_try h"
| "dispatch_try (RoleAssigned u r h) = handleRoleAssigned_try u r h"
| "dispatch_try (RoleRevoked u) = handleRoleRevoked_try u"
| "dispatch_try (PublicKeySaved u) = handlePublicKeySaved_try u"
| "dispatch_try (RecordAdded i ow t ih c v vb ts) = handleRecordAdded_try i ow t ih c v vb ts"
| "dispatch_try (ProfessionalAccessRequested i rs p pa) =
     handleProfessionalAccessRequested_try i rs p pa"
| "dispatch_try (AccessGranted i ow g ex k) = handleAccessGranted_try i ow g ex k"
| "dispatch_try (AccessRevoked pa p rs) = handleAccessRevoked_try pa p rs"

section \<open>The connection manager\<close>

text \<open>
  \<^verbatim>\<open>connectWebSocket\<close> runs fourteen calls in its \<^verbatim>\<open>try\<close> block that the chain
  client may fail: the provider constructor (0), the contract constructor (1), the two
  provider listeners (2, 3) and the ten contract listeners (4 to 13). An attempt either
  succeeds or throws at one of them. The manager records the listeners of the contract of
  the latest attempt, the provider listeners, the pending timers and the log.
\<close>

datatype attempt = Succeeds | ThrowsAt nat string

record manager =
  attached :: "string list"
  providerListeners :: "string list"
  timers :: "nat list"
  elapsed :: nat
  attempts :: nat
  mlog :: "log_entry list"

definition contractEvents :: "string list" where
  "contractEvents = [''RegistrationRequested'', ''HospitalVerified'', ''HospitalRevoked'',
     ''RoleAssigned'', ''RoleRevoked'', ''PublicKeySaved'', ''RecordAdded'',
     ''ProfessionalAccessRequested'', ''AccessGranted'', ''AccessRevoked'']"

definition mlog_add :: "level \<Rightarrow> frag list \<Rightarrow> manager \<Rightarrow> manager" where
  "mlog_add l m mg = mg\<lparr>mlog := mlog mg @ [\<lparr>lvl = l, msg = m, tx = None\<rparr>]\<rparr>"

definition connectWebSocket :: "string \<Rightarrow> attempt \<Rightarrow> manager \<Rightarrow> manager" where
  "connectWebSocket url a mg =
     (let m1 = mlog_add Info [Str ''Connecting to WebSocket at '', Str url, Str ''...'']
                 (mg\<lparr>attempts := attempts mg + 1, attached := [], providerListeners := []\<rparr>)
      in case a of
           Succeeds \<Rightarrow>
             mlog_add Info [Str ''All contract event listeners attached.'']
               ((mlog_add Info [Str ''WebSocket provider connected. Attaching contract event listeners...'']
                  (m1\<lparr>providerListeners := [''network'', ''error'']\<rparr>))
                \<lparr>attached := contractEvents\<rparr>)
         | ThrowsAt k e \<Rightarrow>
             (let m2 = m1\<lparr>providerListeners := take (k - 2) [''network'', ''error''],
                          attached := take (k - 4) contractEvents\<rparr>;
                  m3 = (if k \<ge> 4 then mlog_add Info
                          [Str ''WebSocket provider connected. Attaching contract event listeners...''] m2
                        else m2);
                  m4 = mlog_add Error [Str ''Failed to initialize WebSocket provider: '', Str e,
                         Str ''. Retrying in 5 seconds...''] m3;
                  m5 = (if k \<ge> 2 then m4\<lparr>attached := []\<rparr> else m4)
              in m5\<lparr>timers := timers m5 @ [5000]\<rparr>))"

text \<open>The provider's \<^verbatim>\<open>error\<close> listener: it logs, and nothing else.\<close>

definition onProviderError :: "string \<Rightarrow> manager \<Rightarrow> manager" where
  "onProviderError e mg = mlog_add Error [Str ''WebSocket Provider Error: '', Str e] mg"

text \<open>
  The first call of \<^verbatim>\<open>connectWebSocket\<close> and the calls the timers make after it, one
  attempt per element of the list; a pending timer fires once its delay has elapsed.
\<close>

fun run :: "string \<Rightarrow> attempt list \<Rightarrow> manager \<Rightarrow> manager" where
  "run url [] mg = mg"
| "run url [a] mg = connectWebSocket url a mg"
| "run url (a # b # bs) mg =
     (let m' = connectWebSocket url a mg
      in case timers m' of
           [] \<Rightarrow> m'
         | t # ts \<Rightarrow> run url (b # bs) (m'\<lparr>timers := ts, elapsed := elapsed m' + t\<rparr>))"

definition manager0 :: manager where
  "manager0 = \<lparr>attached = [], providerListeners = [], timers = [], elapsed = 0, attempts = 0,
     mlog = []\<rparr>"

section \<open>Business keys\<close>

text \<open>The composite key of an AccessGrant.\<close>

definition grant_key :: "access_grant \<Rightarrow> nat \<times> string" where
  "grant_key d = (g_recordId d, g_professionalAddress d)"

section \<open>Example inputs\<close>

definition ev0 :: event where
  "ev0 = ContractEventPayload ''0xabc'' (Some \<lparr>timestamp = 1700000000\<rparr>)"

definition store0 :: state where
  "store0 = \<lparr>requests = [], hospitals = [], users = [], records = [], accessRequests = [],
     grants = [], log = []\<rparr>"

definition store_verifying :: state where
  "store_verifying = store0\<lparr>requests :=
     [\<lparr>rr_requestId = 7, rr_hospitalName = ''Acme Clinic'', rr_requesterAddress = ''0xAAA'',
       rr_status = ''verifying''\<rparr>]\<rparr>"

definition ev_no_block :: event where
  "ev_no_block = ContractEventPayload ''0xdef'' None"

definition env_timeout :: env where
  "env_timeout = \<lparr>rejects = (\<lambda>k. if k = 0 then Some ''timeout'' else None),
     httpContract_users = (\<lambda>a. [])\<rparr>"

definition store_users :: state where
  "store_users = store0\<lparr>users :=
     [\<lparr>u_address = ''0xccc'', u_name = ''Dr C'', u_role = ''Doctor'',
       u_professionalStatus = ''approved'', u_isVerified = True, u_hospitalId = Some 7,
       u_requestedHospitalId = None, u_publicKey = None\<rparr>,
      \<lparr>u_address = ''0xeee'', u_name = ''E'', u_role = ''Patient'',
       u_professionalStatus = ''revoked'', u_isVerified = False, u_hospitalId = Some 7,
       u_requestedHospitalId = None, u_publicKey = None\<rparr>],
     hospitals :=
     [\<lparr>h_hospitalId = 7, h_name = ''Acme Clinic'', h_adminAddress = ''0xBBB'',
       h_isVerified = True, h_status = ''revoking''\<rparr>]\<rparr>"

definition store_grants :: state where
  "store_grants = store0\<lparr>grants :=
     [\<lparr>g_recordId = 1, g_patientAddress = ''0xaaa'', g_professionalAddress = ''0xccc'',
       g_expirationTimestamp = Date 5000, g_rewrappedKey = ''k1'', g_createdAt = Date 1000\<rparr>,
      \<lparr>g_recordId = 2, g_patientAddress = ''0xaaa'', g_professionalAddress = ''0xccc'',
       g_expirationTimestamp = Date 5000, g_rewrappedKey = ''k2'', g_createdAt = Date 1000\<rparr>,
      \<lparr>g_recordId = 1, g_patientAddress = ''0xaaa'', g_professionalAddress = ''0xddd'',
       g_expirationTimestamp = Date 5000, g_rewrappedKey = ''k3'', g_createdAt = Date 1000\<rparr>]\<rparr>"

section \<open>Facts about the store operations\<close>

lemma updateOne_no_match: "find p ds = None \<Longrightarrow> updateOne p f ds = ds"
  by (induction ds) (auto split: if_splits)

lemma length_updateOne: "length (updateOne p f ds) = length ds"
  by (induction ds) auto

lemma updateOne_mem: "find p ds = Some d \<Longrightarrow> f d \<in> set (updateOne p f ds)"
  by (induction ds) (auto split: if_splits)

lemma find_updateOne:
  "(\<And>d. p d \<Longrightarrow> p (f d)) \<Longrightarrow> find p (updateOne p f ds) = map_option f (find p ds)"
  by (induction ds) auto

lemma find_app:
  "find p (xs @ ys) = (case find p xs of None \<Rightarrow> find p ys | Some x \<Rightarrow> Some x)"
  by (induction xs) auto

lemma find_upsert:
  "(\<And>d. p d \<Longrightarrow> p (f d)) \<Longrightarrow> p ins \<Longrightarrow>
   find p (findOneAndUpsert p f ins ds) = Some (case find p ds of None \<Rightarrow> ins | Some d \<Rightarrow> f d)"
  by (auto simp: findOneAndUpsert_def find_updateOne find_app split: option.splits)

lemma db_log [simp]: "db (s\<lparr>log := l\<rparr>) = db s"
  by (simp add: db_def)

lemma Number_of_small: "n < 2 ^ 53 \<Longrightarrow> Number_of n = n"
  by (simp add: Number_of_def)

section \<open>HospitalVerified\<close>

lemma hospitalVerified_no_request:
  assumes "find (\<lambda>d. rr_requestId d = Number_of h \<and> rr_status d = ''verifying'') (requests s) = None"
  shows "fst (handleHospitalVerified h admin ev en s) = Resolved"
    and "db (snd (handleHospitalVerified h admin ev en s)) = db s"
    and "rejects en 0 = None \<Longrightarrow> log (snd (handleHospitalVerified h admin ev en s)) = log s @
          [\<lparr>lvl = Info, msg = [Str ''[Event] HospitalVerified: ID '', Num (Number_of h),
                 Str '' for admin '', Str admin, Str ''.''], tx = None\<rparr>,
           \<lparr>lvl = Warn, msg = [Str ''[Indexer] Did not find a VERIFYING request for ID '',
                 Num (Number_of h), Str ''.''], tx = transactionHash ev\<rparr>]"
  using assms
  by (auto simp: handleHospitalVerified_def handleHospitalVerified_try_def try_catch_def Let_def
      findOneAndUpdate_def logger_info_def logger_warn_def logger_error_def updateOne_no_match
      db_def split: option.splits)

lemma hospitalVerified_request:
  assumes "find (\<lambda>d. rr_requestId d = Number_of h \<and> rr_status d = ''verifying'') (requests s) = Some r"
    and "rejects en = (\<lambda>k. None)"
  shows "r\<lparr>rr_status := ''approved''\<rparr> \<in> set (requests (snd (handleHospitalVerified h admin ev en s)))"
    and "find (\<lambda>d. h_hospitalId d = Number_of h)
           (hospitals (snd (handleHospitalVerified h admin ev en s)))
         = Some \<lparr>h_hospitalId = Number_of h, h_name = rr_hospitalName r, h_adminAddress = admin,
                 h_isVerified = True, h_status = ''active''\<rparr>"
    and "\<exists>u. find (\<lambda>d. u_address d = toLowerCase admin)
                (users (snd (handleHospitalVerified h admin ev en s))) = Some u
           \<and> u_role u = ''HospitalAdmin'' \<and> u_isVerified u \<and> u_hospitalId u = Some (Number_of h)"
  using assms
  by (auto simp: handleHospitalVerified_def handleHospitalVerified_try_def try_catch_def Let_def
      findOneAndUpdate_def logger_info_def logger_warn_def logger_error_def updateOne_mem
      find_upsert split: option.splits)

text \<open>
  C2. A HospitalVerified event with no request of that id in status verifying leaves all
  six collections as they were, whatever the store operations do, and with a store that
  answers it logs the event and one warning whose \<open>tx\<close> is the payload's
  \<open>transactionHash\<close> property. With such a
  request and a store that answers, the request is approved, the Hospital found under the
  id is verified and active and named after the request, and the User found under the
  admin's lower-cased address is a verified HospitalAdmin of that hospital.
\<close>

theorem handleHospitalVerified_gate:
  "(find (\<lambda>d. rr_requestId d = Number_of h \<and> rr_status d = ''verifying'') (requests s) = None \<longrightarrow>
      fst (handleHospitalVerified h admin ev en s) = Resolved \<and>
      db (snd (handleHospitalVerified h admin ev en s)) = db s \<and>
      (rejects en 0 = None \<longrightarrow>
         log (snd (handleHospitalVerified h admin ev en s)) = log s @
          [\<lparr>lvl = Info, msg = [Str ''[Event] HospitalVerified: ID '', Num (Number_of h),
                 Str '' for admin '', Str admin, Str ''.''], tx = None\<rparr>,
           \<lparr>lvl = Warn, msg = [Str ''[Indexer] Did not find a VERIFYING request for ID '',
                 Num (Number_of h), Str ''.''], tx = transactionHash ev\<rparr>])) \<and>
   (\<forall>r. find (\<lambda>d. rr_requestId d = Number_of h \<and> rr_status d = ''verifying'') (requests s) = Some r \<longrightarrow>
      rejects en = (\<lambda>k. None) \<longrightarrow>
        r\<lparr>rr_status := ''approved''\<rparr> \<in> set (requests (snd (handleHospitalVerified h admin ev en s))) \<and>
        find (\<lambda>d. h_hospitalId d = Number_of h)
           (hospitals (snd (handleHospitalVerified h admin ev en s)))
         = Some \<lparr>h_hospitalId = Number_of h, h_name = rr_hospitalName r, h_adminAddress = admin,
                 h_isVerified = True, h_status = ''active''\<rparr> \<and>
        (\<exists>u. find (\<lambda>d. u_address d = toLowerCase admin)
                (users (snd (handleHospitalVerified h admin ev en s))) = Some u
           \<and> u_role u = ''HospitalAdmin'' \<and> u_isVerified u \<and> u_hospitalId u = Some (Number_of h)))"
  using hospitalVerified_no_request [where h = h and s = s and admin = admin and ev = ev and en = en]
    hospitalVerified_request [where h = h and s = s and admin = admin and ev = ev and en = en]
  by blast

theorem handleHospitalVerified_gate_witness:
  "find (\<lambda>d. rr_requestId d = Number_of 7 \<and> rr_status d = ''verifying'') (requests store0) = None \<and>
   rejects (no_faults (\<lambda>a. [])) 0 = None \<and>
   db (snd (handleHospitalVerified 7 ''0xBBB'' ev0 (no_faults (\<lambda>a. [])) store0)) = db store0 \<and>
   length (log (snd (handleHospitalVerified 7 ''0xBBB'' ev0 (no_faults (\<lambda>a. [])) store0))) = 2 \<and>
   find (\<lambda>d. rr_requestId d = Number_of 7 \<and> rr_status d = ''verifying'') (requests store_verifying)
     = Some \<lparr>rr_requestId = 7, rr_hospitalName = ''Acme Clinic'', rr_requesterAddress = ''0xAAA'',
              rr_status = ''verifying''\<rparr> \<and>
   rejects (no_faults (\<lambda>a. [])) = (\<lambda>k. None) \<and>
   find (\<lambda>d. h_hospitalId d = Number_of 7)
      (hospitals (snd (handleHospitalVerified 7 ''0xBBB'' ev0 (no_faults (\<lambda>a. [])) store_verifying)))
     = Some \<lparr>h_hospitalId = Number_of 7, h_name = ''Acme Clinic'', h_adminAddress = ''0xBBB'',
              h_isVerified = True, h_status = ''active''\<rparr>"
proof -
  have a: "find (\<lambda>d. rr_requestId d = Number_of 7 \<and> rr_status d = ''verifying'') (requests store0) = None"
    by (simp add: store0_def)
  have b: "find (\<lambda>d. rr_requestId d = Number_of 7 \<and> rr_status d = ''verifying'') (requests store_verifying)
     = Some \<lparr>rr_requestId = 7, rr_hospitalName = ''Acme Clinic'', rr_requesterAddress = ''0xAAA'',
              rr_status = ''verifying''\<rparr>"
    by (simp add: store_verifying_def store0_def Number_of_def)
  have c: "rejects (no_faults (\<lambda>a. [])) = (\<lambda>k. None)"
    by (simp add: no_faults_def)
  from handleHospitalVerified_gate [where h = 7 and s = store0 and admin = "''0xBBB''" and ev = ev0
      and en = "no_faults (\<lambda>a. [])"] a c
  have d: "db (snd (handleHospitalVerified 7 ''0xBBB'' ev0 (no_faults (\<lambda>a. [])) store0)) = db store0"
    and e: "length (log (snd (handleHospitalVerified 7 ''0xBBB'' ev0 (no_faults (\<lambda>a. [])) store0))) = 2"
    by (simp_all add: store0_def)
  from handleHospitalVerified_gate [where h = 7 and s = store_verifying and admin = "''0xBBB''"
      and ev = ev0 and en = "no_faults (\<lambda>a. [])"] b c
  have f: "find (\<lambda>d. h_hospitalId d = Number_of 7)
      (hospitals (snd (handleHospitalVerified 7 ''0xBBB'' ev0 (no_faults (\<lambda>a. [])) store_verifying)))
     = Some \<lparr>h_hospitalId = Number_of 7, h_name = ''Acme Clinic'', h_adminAddress = ''0xBBB'',
              h_isVerified = True, h_status = ''active''\<rparr>"
    by simp
  from a b c d e f show ?thesis by simp
qed

lemma toLowerCase_example: "toLowerCase ''0xDDD'' = ''0xddd''"
  by (simp add: toLowerCase_def toLowerCase_char_def char_of_def bit_Suc_0_iff)

section \<open>RoleAssigned, RoleRevoked and PublicKeySaved on an unknown address\<close>

lemma find_none_not_address:
  "\<forall>u\<in>set us. u_address u \<noteq> a \<Longrightarrow> find (\<lambda>d. u_address d = a) us = None"
  by (simp add: find_None_iff)

lemma roleAssigned_frame:
  "\<forall>u\<in>set (users s). u_address u \<noteq> toLowerCase a \<Longrightarrow>
   db (snd (handleRoleAssigned a role h ev en s)) = db s"
  by (auto simp: handleRoleAssigned_def handleRoleAssigned_try_def try_catch_def Let_def
      findOneAndUpdate_def logger_info_def logger_error_def updateOne_no_match
      find_none_not_address db_def split: option.splits)

lemma roleRevoked_frame:
  "\<forall>u\<in>set (users s). u_address u \<noteq> toLowerCase a \<Longrightarrow>
   db (snd (handleRoleRevoked a ev en s)) = db s"
  by (auto simp: handleRoleRevoked_def handleRoleRevoked_try_def try_catch_def Let_def
      findOneAndUpdate_def logger_info_def logger_error_def updateOne_no_match
      find_none_not_address db_def split: option.splits)

lemma publicKeySaved_frame:
  "\<forall>u\<in>set (users s). u_address u \<noteq> toLowerCase a \<Longrightarrow>
   db (snd (handlePublicKeySaved a ev en s)) = db s"
  by (auto simp: handlePublicKeySaved_def handlePublicKeySaved_try_def try_catch_def Let_def
      findOneAndUpdate_def logger_info_def logger_error_def updateOne_no_match
      find_none_not_address db_def split: option.splits)

lemma role_key_length:
  "length (users (snd (handleRoleAssigned a role h ev en s))) = length (users s)"
  "length (users (snd (handleRoleRevoked a ev en s))) = length (users s)"
  "length (users (snd (handlePublicKeySaved a ev en s))) = length (users s)"
  by (auto simp: handleRoleAssigned_def handleRoleAssigned_try_def
      handleRoleRevoked_def handleRoleRevoked_try_def
      handlePublicKeySaved_def handlePublicKeySaved_try_def try_catch_def Let_def
      findOneAndUpdate_def logger_info_def logger_error_def length_updateOne
      split: option.splits)

text \<open>
  C9. When no User document has the lower-cased address of the event, RoleAssigned,
  RoleRevoked and PublicKeySaved leave all six collections as they were, whatever the
  store and the contract read do; and in every case the number of User documents stays
  the same, so none of the three creates a User.
\<close>

theorem role_and_key_events_create_no_user:
  "((\<forall>u\<in>set (users s). u_address u \<noteq> toLowerCase a) \<longrightarrow>
      db (snd (handleRoleAssigned a role h ev en s)) = db s \<and>
      db (snd (handleRoleRevoked a ev en s)) = db s \<and>
      db (snd (handlePublicKeySaved a ev en s)) = db s) \<and>
   length (users (snd (handleRoleAssigned a role h ev en s))) = length (users s) \<and>
   length (users (snd (handleRoleRevoked a ev en s))) = length (users s) \<and>
   length (users (snd (handlePublicKeySaved a ev en s))) = length (users s)"
  by (simp add: roleAssigned_frame roleRevoked_frame publicKeySaved_frame role_key_length)

theorem role_and_key_events_create_no_user_witness:
  "map u_address (users store_users) = [''0xccc'', ''0xeee''] \<and>
   toLowerCase ''0xDDD'' = ''0xddd'' \<and>
   db (snd (handleRoleAssigned ''0xDDD'' 1 7 ev0 (no_faults (\<lambda>a. ''04ab'')) store_users)) = db store_users \<and>
   db (snd (handleRoleRevoked ''0xDDD'' ev0 (no_faults (\<lambda>a. ''04ab'')) store_users)) = db store_users \<and>
   db (snd (handlePublicKeySaved ''0xDDD'' ev0 (no_faults (\<lambda>a. ''04ab'')) store_users)) = db store_users"
proof -
  have a: "\<forall>u\<in>set (users store_users). u_address u \<noteq> toLowerCase ''0xDDD''"
    by (simp add: store_users_def store0_def toLowerCase_example)
  have b: "map u_address (users store_users) = [''0xccc'', ''0xeee'']"
    by (simp add: store_users_def store0_def)
  from a role_and_key_events_create_no_user [where s = store_users and a = "''0xDDD''" and role = 1
      and h = 7 and ev = ev0 and en = "no_faults (\<lambda>a. ''04ab'')"]
  show ?thesis using b toLowerCase_example by blast
qed

section \<open>AccessGranted and the block lookup\<close>

lemma set_updateOne: "set (updateOne p f ds) \<subseteq> set ds \<union> f ` set ds"
  by (induction ds) auto

lemma set_upsert: "set (findOneAndUpsert p f ins ds) \<subseteq> set ds \<union> f ` set ds \<union> {ins}"
  using set_updateOne [of p f ds] by (auto simp: findOneAndUpsert_def split: option.splits)

lemma upsert_cases:
  "d \<in> set (findOneAndUpsert p f ins ds) \<Longrightarrow> d \<in> set ds \<or> d = ins \<or> d \<in> f ` set ds"
  using set_upsert [of p f ins ds] by auto

lemma accessGranted_no_block:
  assumes "getBlock ev = None"
  shows "fst (handleAccessGranted r ow g ex k ev en s) = Resolved"
    and "db (snd (handleAccessGranted r ow g ex k ev en s)) = db s"
    and "rejects en 0 = None \<Longrightarrow> log (snd (handleAccessGranted r ow g ex k ev en s)) = log s @
       [\<lparr>lvl = Warn, msg = [Str ''Could not fetch block for event at hash: '',
                  Str (js_string (transactionHash ev))], tx = None\<rparr>]"
  using assms
  by (auto simp: handleAccessGranted_def handleAccessGranted_try_def try_catch_def Let_def
      logger_info_def logger_warn_def logger_error_def db_def split: option.splits)

lemma accessGranted_createdAt:
  assumes "d \<in> set (grants (snd (handleAccessGranted r ow g ex k ev en s)))"
    and "d \<notin> set (grants s)"
  shows "\<exists>b. getBlock ev = Some b \<and> g_createdAt d = new_Date (timestamp b * 1000)"
  using assms
  by (auto simp: handleAccessGranted_def handleAccessGranted_try_def try_catch_def Let_def
      logger_info_def logger_warn_def logger_error_def split: option.splits dest!: upsert_cases)

text \<open>
  C10. When the block lookup of an AccessGranted event returns nothing, the handler
  resolves with all six collections unchanged and, the lookup having answered, logs one
  warning. Every AccessGrant document that is in the store after the handler and was not
  there before has the date of a block the lookup returned as its createdAt.
\<close>

theorem handleAccessGranted_needs_block:
  "(getBlock ev = None \<longrightarrow>
      fst (handleAccessGranted r ow g ex k ev en s) = Resolved \<and>
      db (snd (handleAccessGranted r ow g ex k ev en s)) = db s \<and>
      (rejects en 0 = None \<longrightarrow> log (snd (handleAccessGranted r ow g ex k ev en s)) = log s @
         [\<lparr>lvl = Warn, msg = [Str ''Could not fetch block for event at hash: '',
                  Str (js_string (transactionHash ev))], tx = None\<rparr>])) \<and>
   (\<forall>d\<in>set (grants (snd (handleAccessGranted r ow g ex k ev en s))). d \<notin> set (grants s) \<longrightarrow>
      (\<exists>b. getBlock ev = Some b \<and> g_createdAt d = new_Date (timestamp b * 1000)))"
  by (auto simp: accessGranted_no_block intro: accessGranted_createdAt)

theorem handleAccessGranted_needs_block_witness:
  "getBlock ev_no_block = None \<and>
   db (snd (handleAccessGranted 1 ''0xAAA'' ''0xDDD'' 1800000000 ''key'' ev_no_block (no_faults (\<lambda>a. [])) store0)) = db store0 \<and>
   \<lparr>g_recordId = 1, g_patientAddress = ''0xaaa'', g_professionalAddress = ''0xddd'',
     g_expirationTimestamp = Date 1800000000000, g_rewrappedKey = ''key'',
     g_createdAt = Date 1700000000000\<rparr>
     \<in> set (grants (snd (handleAccessGranted 1 ''0xAAA'' ''0xDDD'' 1800000000 ''key'' ev0 (no_faults (\<lambda>a. [])) store0))) \<and>
   \<lparr>g_recordId = 1, g_patientAddress = ''0xaaa'', g_professionalAddress = ''0xddd'',
     g_expirationTimestamp = Date 1800000000000, g_rewrappedKey = ''key'',
     g_createdAt = Date 1700000000000\<rparr> \<notin> set (grants store0) \<and>
   (\<exists>b. getBlock ev0 = Some b \<and> Date 1700000000000 = new_Date (timestamp b * 1000))"
proof -
  have a: "getBlock ev_no_block = None" by (simp add: ev_no_block_def ContractEventPayload_def)
  have b: "\<lparr>g_recordId = 1, g_patientAddress = ''0xaaa'', g_professionalAddress = ''0xddd'',
     g_expirationTimestamp = Date 1800000000000, g_rewrappedKey = ''key'',
     g_createdAt = Date 1700000000000\<rparr>
     \<in> set (grants (snd (handleAccessGranted 1 ''0xAAA'' ''0xDDD'' 1800000000 ''key'' ev0 (no_faults (\<lambda>a. [])) store0)))"
    by (simp add: handleAccessGranted_def handleAccessGranted_try_def try_catch_def Let_def
        logger_info_def no_faults_def ev0_def ContractEventPayload_def store0_def findOneAndUpsert_def Number_of_def
        new_Date_def toLowerCase_def toLowerCase_char_def char_of_def bit_Suc_0_iff)
  have c: "\<lparr>g_recordId = 1, g_patientAddress = ''0xaaa'', g_professionalAddress = ''0xddd'',
     g_expirationTimestamp = Date 1800000000000, g_rewrappedKey = ''key'',
     g_createdAt = Date 1700000000000\<rparr> \<notin> set (grants store0)"
    by (simp add: store0_def)
  from handleAccessGranted_needs_block [where ev = ev_no_block and s = store0 and r = 1
      and ow = "''0xAAA''" and g = "''0xDDD''" and ex = 1800000000 and k = "''key''"
      and en = "no_faults (\<lambda>a. [])"] a
  have d: "db (snd (handleAccessGranted 1 ''0xAAA'' ''0xDDD'' 1800000000 ''key'' ev_no_block (no_faults (\<lambda>a. [])) store0)) = db store0"
    by blast
  from handleAccessGranted_needs_block [where ev = ev0 and s = store0 and r = 1
      and ow = "''0xAAA''" and g = "''0xDDD''" and ex = 1800000000 and k = "''key''"
      and en = "no_faults (\<lambda>a. [])"] b c
  have e: "\<exists>b. getBlock ev0 = Some b \<and> Date 1700000000000 = new_Date (timestamp b * 1000)"
    by fastforce
  from a b c d e show ?thesis by blast
qed

section \<open>AccessRevoked\<close>

lemma accessRevoked_general:
  "rejects en 0 = None \<Longrightarrow>
   grants (snd (handleAccessRevoked pa prof rs ev en s)) =
     filter (\<lambda>d. \<not> (g_professionalAddress d = toLowerCase prof \<and> g_recordId d \<in> Number_of ` set rs)) (grants s)"
  by (auto simp: handleAccessRevoked_def handleAccessRevoked_try_def try_catch_def Let_def
      logger_info_def logger_error_def deleteMany_def split: option.splits)

lemma Number_of_image: "\<forall>r\<in>set rs. r < 2 ^ 53 \<Longrightarrow> Number_of ` set rs = set rs"
  by (auto simp: Number_of_small image_iff)

text \<open>
  C5. After an AccessRevoked event whose record ids are safe integers, and with a store
  that answers, the grants are those of before without the ones of the lower-cased
  professional for a listed record, in their order: none of those remains, and every other
  grant is kept as it was.
\<close>

theorem handleAccessRevoked_deletes:
  assumes "rejects en 0 = None" and "\<forall>r\<in>set rs. r < 2 ^ 53"
  shows "grants (snd (handleAccessRevoked pa prof rs ev en s)) =
           filter (\<lambda>d. \<not> (g_professionalAddress d = toLowerCase prof \<and> g_recordId d \<in> set rs)) (grants s)
         \<and> (\<forall>d\<in>set (grants (snd (handleAccessRevoked pa prof rs ev en s))).
               \<not> (g_professionalAddress d = toLowerCase prof \<and> g_recordId d \<in> set rs))"
  using assms by (simp add: accessRevoked_general Number_of_image)

theorem handleAccessRevoked_deletes_witness:
  "rejects (no_faults (\<lambda>a. [])) 0 = None \<and> (1::nat) < 2 ^ 53 \<and> (2::nat) < 2 ^ 53 \<and>
   grants (snd (handleAccessRevoked ''0xAAA'' ''0xCCC'' [1, 2] ev0 (no_faults (\<lambda>a. [])) store_grants)) =
     [\<lparr>g_recordId = 1, g_patientAddress = ''0xaaa'', g_professionalAddress = ''0xddd'',
       g_expirationTimestamp = Date 5000, g_rewrappedKey = ''k3'', g_createdAt = Date 1000\<rparr>]"
proof -
  have a: "rejects (no_faults (\<lambda>a. [])) 0 = None" by (simp add: no_faults_def)
  have b: "\<forall>r\<in>set [1, 2::nat]. r < 2 ^ 53" by simp
  have c: "toLowerCase ''0xCCC'' = ''0xccc''"
    by (simp add: toLowerCase_def toLowerCase_char_def char_of_def bit_Suc_0_iff)
  from handleAccessRevoked_deletes [OF a b, where pa = "''0xAAA''" and prof = "''0xCCC''"
      and ev = ev0 and s = store_grants]
  have "grants (snd (handleAccessRevoked ''0xAAA'' ''0xCCC'' [1, 2] ev0 (no_faults (\<lambda>a. [])) store_grants)) =
     [\<lparr>g_recordId = 1, g_patientAddress = ''0xaaa'', g_professionalAddress = ''0xddd'',
       g_expirationTimestamp = Date 5000, g_rewrappedKey = ''k3'', g_createdAt = Date 1000\<rparr>]"
    by (simp add: c store_grants_def store0_def)
  with a show ?thesis by simp
qed

section \<open>The failure boundary of the handlers\<close>

lemma dispatch_resolved: "fst (dispatch cev ev en s) = Resolved"
  by (cases cev) (auto simp: try_catch_def handleRegistrationRequested_def handleHospitalVerified_def
     handleHospitalRevoked_def handleRoleAssigned_def handleRoleRevoked_def handlePublicKeySaved_def
     handleRecordAdded_def handleProfessionalAccessRequested_def handleAccessGranted_def
     handleAccessRevoked_def split: prod.splits option.splits)

lemma dispatch_caught:
  "dispatch_try cev ev en s = (Some e, s1) \<Longrightarrow>
   db (snd (dispatch cev ev en s)) = db s1 \<and>
   (\<exists>m. Str e \<in> set m \<and> log (snd (dispatch cev ev en s)) =
       log s1 @ [\<lparr>lvl = Error, msg = m, tx = transactionHash ev\<rparr>])"
  by (cases cev) (auto simp: try_catch_def handleRegistrationRequested_def handleHospitalVerified_def
     handleHospitalRevoked_def handleRoleAssigned_def handleRoleRevoked_def handlePublicKeySaved_def
     handleRecordAdded_def handleProfessionalAccessRequested_def handleAccessGranted_def
     handleAccessRevoked_def logger_error_def db_def)

lemma dispatch_first_rejection:
  "rejects en 0 = Some e \<Longrightarrow> \<exists>s1. dispatch_try cev ev en s = (Some e, s1) \<and> db s1 = db s"
  by (cases cev) (auto simp: handleRegistrationRequested_try_def handleHospitalVerified_try_def
     handleHospitalRevoked_try_def handleRoleAssigned_try_def handleRoleRevoked_try_def
     handlePublicKeySaved_try_def handleRecordAdded_try_def
     handleProfessionalAccessRequested_try_def handleAccessGranted_try_def
     handleAccessRevoked_try_def logger_info_def db_def Let_def)

text \<open>
  C8. A rejected store operation is caught by the handler's own catch block: the
  invocation resolves, the store is as it was, and one error entry holding the message is
  logged. The entry does not carry the transaction identifier: the handlers read
  \<^verbatim>\<open>event.transactionHash\<close>, which the payload of the chain client does not have, so
  the entry is logged with an undefined \<^verbatim>\<open>tx\<close> although the payload holds the hash
  in its log.
\<close>

theorem error_logged_without_transaction_hash:
  "log_transactionHash ev0 = ''0xabc'' \<and>
   dispatch (RecordAdded 5 ''0xAAA'' ''scan'' ''Qm1'' ''xray'' True ''0xCCC'' 1700000000)
      ev0 env_timeout store0
   = (Resolved, store0\<lparr>log :=
        [\<lparr>lvl = Info, msg = [Str ''[Event] RecordAdded: ID '', Num 5, Str '' for owner '',
            Str ''0xAAA''], tx = None\<rparr>,
         \<lparr>lvl = Error, msg = [Str ''Error processing RecordAdded (ID: '', Num 5, Str ''): '',
            Str ''timeout''], tx = None\<rparr>]\<rparr>)"
  by (simp add: handleRecordAdded_def handleRecordAdded_try_def try_catch_def Let_def
      logger_info_def logger_error_def env_timeout_def ev0_def ContractEventPayload_def
      store0_def Number_of_def)

section \<open>HospitalRevoked\<close>

lemma user_revoked_changed:
  "(u\<lparr>u_professionalStatus := ''revoked'', u_isVerified := False\<rparr> \<noteq> u) =
   (u_professionalStatus u \<noteq> ''revoked'' \<or> u_isVerified u)"
  by (cases u) auto

lemma count_changed:
  "length (filter (\<lambda>(a, b). a \<noteq> b) (zip xs (map g xs))) = length (filter (\<lambda>x. g x \<noteq> x) xs)"
  by (induction xs) auto

lemma find_updateOne_key:
  "(\<And>d. p d \<Longrightarrow> q d) \<Longrightarrow> (\<And>d. q (f d) = q d) \<Longrightarrow> find q ds = Some hosp \<Longrightarrow> p hosp \<Longrightarrow>
   find q (updateOne p f ds) = Some (f hosp)"
  by (induction ds) (auto split: if_splits)

lemma hospitalRevoked_users:
  assumes "rejects en = (\<lambda>k. None)"
  shows "users (snd (handleHospitalRevoked h ev en s)) =
           map (\<lambda>u. if u_hospitalId u = Some (Number_of h)
                     then u\<lparr>u_professionalStatus := ''revoked'', u_isVerified := False\<rparr> else u) (users s)"
  using assms
  by (auto simp: handleHospitalRevoked_def handleHospitalRevoked_try_def try_catch_def Let_def
      logger_info_def updateMany_def findOneAndUpdate_def)

lemma hospitalRevoked_log:
  assumes "rejects en = (\<lambda>k. None)"
  shows "log (snd (handleHospitalRevoked h ev en s)) = log s @
           [\<lparr>lvl = Info, msg = [Str ''[Event] HospitalRevoked: ID '', Num (Number_of h), Str ''.''], tx = None\<rparr>] @
           (let c = length (filter (\<lambda>u. u_hospitalId u = Some (Number_of h) \<and>
                        (u_professionalStatus u \<noteq> ''revoked'' \<or> u_isVerified u)) (users s))
            in if c > 0
               then [\<lparr>lvl = Info, msg = [Str ''[Cascading Revoke] Revoked '', Num c,
                        Str '' professionals for Hospital ID '', Num (Number_of h), Str ''.''], tx = None\<rparr>]
               else [])"
  using assms
  by (auto simp: handleHospitalRevoked_def handleHospitalRevoked_try_def try_catch_def Let_def
      logger_info_def updateMany_def findOneAndUpdate_def user_revoked_changed)

lemma hospitalRevoked_hospital:
  assumes "rejects en = (\<lambda>k. None)"
    and "find (\<lambda>d. h_hospitalId d = Number_of h) (hospitals s) = Some hosp"
    and "h_status hosp = ''revoking''"
  shows "find (\<lambda>d. h_hospitalId d = Number_of h) (hospitals (snd (handleHospitalRevoked h ev en s)))
           = Some (hosp\<lparr>h_status := ''revoked'', h_isVerified := False\<rparr>)"
proof -
  have "h_hospitalId hosp = Number_of h"
    using assms(2) by (auto simp: find_Some_iff)
  then have "find (\<lambda>d. h_hospitalId d = Number_of h)
      (updateOne (\<lambda>d. h_hospitalId d = Number_of h \<and> h_status d = ''revoking'')
         (\<lambda>d. d\<lparr>h_status := ''revoked'', h_isVerified := False\<rparr>) (hospitals s))
      = Some (hosp\<lparr>h_status := ''revoked'', h_isVerified := False\<rparr>)"
    using assms(2,3) by (intro find_updateOne_key) auto
  then show ?thesis
    using assms(1)
    by (auto simp: handleHospitalRevoked_def handleHospitalRevoked_try_def try_catch_def Let_def
      logger_info_def updateMany_def findOneAndUpdate_def)
qed

text \<open>
  C4. After a HospitalRevoked event, with a store that answers, every User of that
  hospital is revoked and unverified and every other User is kept; the number of User
  documents that differ from before equals the number of Users of the hospital that were
  not yet revoked and unverified, and that number is the one the handler logs when it is
  positive. The Hospital found under the id, when its status is revoking, is found
  afterwards with status revoked and unverified.
\<close>

theorem handleHospitalRevoked_cascade:
  assumes "rejects en = (\<lambda>k. None)"
  shows "(\<forall>u\<in>set (users (snd (handleHospitalRevoked h ev en s))).
            u_hospitalId u = Some (Number_of h) \<longrightarrow>
            u_professionalStatus u = ''revoked'' \<and> \<not> u_isVerified u) \<and>
         (\<forall>u\<in>set (users s). u_hospitalId u \<noteq> Some (Number_of h) \<longrightarrow>
            u \<in> set (users (snd (handleHospitalRevoked h ev en s)))) \<and>
         length (filter (\<lambda>(a, b). a \<noteq> b) (zip (users s) (users (snd (handleHospitalRevoked h ev en s)))))
           = length (filter (\<lambda>u. u_hospitalId u = Some (Number_of h) \<and>
                        (u_professionalStatus u \<noteq> ''revoked'' \<or> u_isVerified u)) (users s)) \<and>
         log (snd (handleHospitalRevoked h ev en s)) = log s @
           [\<lparr>lvl = Info, msg = [Str ''[Event] HospitalRevoked: ID '', Num (Number_of h), Str ''.''], tx = None\<rparr>] @
           (let c = length (filter (\<lambda>u. u_hospitalId u = Some (Number_of h) \<and>
                        (u_professionalStatus u \<noteq> ''revoked'' \<or> u_isVerified u)) (users s))
            in if c > 0
               then [\<lparr>lvl = Info, msg = [Str ''[Cascading Revoke] Revoked '', Num c,
                        Str '' professionals for Hospital ID '', Num (Number_of h), Str ''.''], tx = None\<rparr>]
               else []) \<and>
         (\<forall>hosp. find (\<lambda>d. h_hospitalId d = Number_of h) (hospitals s) = Some hosp \<and>
               h_status hosp = ''revoking'' \<longrightarrow>
            find (\<lambda>d. h_hospitalId d = Number_of h) (hospitals (snd (handleHospitalRevoked h ev en s)))
              = Some (hosp\<lparr>h_status := ''revoked'', h_isVerified := False\<rparr>))"
proof -
  let ?g = "\<lambda>u. if u_hospitalId u = Some (Number_of h)
                     then u\<lparr>u_professionalStatus := ''revoked'', u_isVerified := False\<rparr> else u"
  have u: "users (snd (handleHospitalRevoked h ev en s)) = map ?g (users s)"
    using assms by (rule hospitalRevoked_users)
  have 1: "\<forall>u\<in>set (map ?g (users s)). u_hospitalId u = Some (Number_of h) \<longrightarrow>
            u_professionalStatus u = ''revoked'' \<and> \<not> u_isVerified u"
    by auto
  have 2: "\<forall>u\<in>set (users s). u_hospitalId u \<noteq> Some (Number_of h) \<longrightarrow> u \<in> set (map ?g (users s))"
  proof (intro ballI impI)
    fix v assume v: "v \<in> set (users s)" "u_hospitalId v \<noteq> Some (Number_of h)"
    then have "?g v = v" by simp
    with v(1) have "v \<in> ?g ` set (users s)" by (rule_tac x = v in image_eqI) simp_all
    then show "v \<in> set (map ?g (users s))" by simp
  qed
  have 3: "length (filter (\<lambda>(a, b). a \<noteq> b) (zip (users s) (map ?g (users s))))
           = length (filter (\<lambda>u. u_hospitalId u = Some (Number_of h) \<and>
                        (u_professionalStatus u \<noteq> ''revoked'' \<or> u_isVerified u)) (users s))"
    unfolding count_changed
    by (rule arg_cong [where f = length], rule filter_cong) (auto simp: user_revoked_changed)
  note l = hospitalRevoked_log [OF assms, of h ev s]
  have 5: "\<forall>hosp. find (\<lambda>d. h_hospitalId d = Number_of h) (hospitals s) = Some hosp \<and>
               h_status hosp = ''revoking'' \<longrightarrow>
            find (\<lambda>d. h_hospitalId d = Number_of h) (hospitals (snd (handleHospitalRevoked h ev en s)))
              = Some (hosp\<lparr>h_status := ''revoked'', h_isVerified := False\<rparr>)"
    using hospitalRevoked_hospital [OF assms] by blast
  show ?thesis
    unfolding u
    apply (intro conjI)
        apply (rule 1)
       apply (rule 2)
      apply (rule 3)
     apply (rule l)
    apply (rule 5 [unfolded u])
    done
qed


theorem handleHospitalRevoked_cascade_witness:
  "rejects (no_faults (\<lambda>a. [])) = (\<lambda>k. None) \<and>
   length (filter (\<lambda>(a, b). a \<noteq> b) (zip (users store_users)
      (users (snd (handleHospitalRevoked 7 ev0 (no_faults (\<lambda>a. [])) store_users))))) = 1 \<and>
   find (\<lambda>d. h_hospitalId d = Number_of 7) (hospitals store_users)
     = Some \<lparr>h_hospitalId = 7, h_name = ''Acme Clinic'', h_adminAddress = ''0xBBB'',
              h_isVerified = True, h_status = ''revoking''\<rparr> \<and>
   find (\<lambda>d. h_hospitalId d = Number_of 7)
      (hospitals (snd (handleHospitalRevoked 7 ev0 (no_faults (\<lambda>a. [])) store_users)))
     = Some \<lparr>h_hospitalId = 7, h_name = ''Acme Clinic'', h_adminAddress = ''0xBBB'',
              h_isVerified = False, h_status = ''revoked''\<rparr>"
proof -
  have a: "rejects (no_faults (\<lambda>a. [])) = (\<lambda>k. None)"
    by (simp add: no_faults_def)
  have n: "Number_of 7 = 7" by (simp add: Number_of_def)
  have b: "find (\<lambda>d. h_hospitalId d = Number_of 7) (hospitals store_users)
     = Some \<lparr>h_hospitalId = 7, h_name = ''Acme Clinic'', h_adminAddress = ''0xBBB'',
              h_isVerified = True, h_status = ''revoking''\<rparr>"
    by (simp add: store_users_def store0_def n)
  have c: "length (filter (\<lambda>u. u_hospitalId u = Some (Number_of 7) \<and>
                        (u_professionalStatus u \<noteq> ''revoked'' \<or> u_isVerified u)) (users store_users)) = 1"
    by (simp add: store_users_def store0_def n)
  note t = handleHospitalRevoked_cascade [OF a, where h = 7 and ev = ev0 and s = store_users]
  from t c have e: "length (filter (\<lambda>(a, b). a \<noteq> b) (zip (users store_users)
      (users (snd (handleHospitalRevoked 7 ev0 (no_faults (\<lambda>a. [])) store_users))))) = 1"
    by presburger
  from t b have f: "find (\<lambda>d. h_hospitalId d = Number_of 7)
      (hospitals (snd (handleHospitalRevoked 7 ev0 (no_faults (\<lambda>a. [])) store_users)))
     = Some \<lparr>h_hospitalId = 7, h_name = ''Acme Clinic'', h_adminAddress = ''0xBBB'',
              h_isVerified = False, h_status = ''revoked''\<rparr>"
    by simp
  from a b e f show ?thesis by blast
qed

section \<open>AccessGranted twice\<close>

lemma updateOne_app_no_match:
  "find p ds = None \<Longrightarrow> updateOne p f (ds @ es) = ds @ updateOne p f es"
  by (induction ds) (auto split: if_splits)

lemma updateOne_const_keyed:
  "distinct (map key ds) \<Longrightarrow> (\<And>d. p d \<longleftrightarrow> key d = k) \<Longrightarrow> key ins = k \<Longrightarrow> find p ds \<noteq> None \<Longrightarrow>
   map key (updateOne p (\<lambda>d. ins) ds) = map key ds \<and> filter p (updateOne p (\<lambda>d. ins) ds) = [ins]"
proof (induction ds)
  case Nil
  then show ?case by simp
next
  case (Cons d ds)
  show ?case
  proof (cases "p d")
    case True
    with Cons.prems have "\<forall>x\<in>set ds. \<not> p x" by (auto simp: image_iff)
    then have 1: "filter p ds = []" by (simp add: filter_empty_conv)
    have 2: "p ins" using Cons.prems(2,3) by simp
    have 3: "key d = key ins" using True Cons.prems(2,3) by simp
    have 4: "updateOne p (\<lambda>d. ins) (d # ds) = ins # ds" using True by simp
    show ?thesis unfolding 4 using 1 2 3 by simp
  next
    case False
    with Cons show ?thesis by simp
  qed
qed

lemma upsert_keyed:
  assumes "distinct (map key ds)" and "\<And>d. p d \<longleftrightarrow> key d = k" and "key ins = k"
  shows "distinct (map key (findOneAndUpsert p (\<lambda>d. ins) ins ds))"
    and "filter p (findOneAndUpsert p (\<lambda>d. ins) ins ds) = [ins]"
proof -
  show "distinct (map key (findOneAndUpsert p (\<lambda>d. ins) ins ds))"
  proof (cases "find p ds")
    case None
    then have "\<forall>x\<in>set ds. key x \<noteq> k" using assms(2) by (simp add: find_None_iff)
    with None assms show ?thesis by (auto simp: findOneAndUpsert_def)
  next
    case (Some a)
    then show ?thesis
      using updateOne_const_keyed [of key ds p k ins] assms by (simp add: findOneAndUpsert_def)
  qed
  show "filter p (findOneAndUpsert p (\<lambda>d. ins) ins ds) = [ins]"
  proof (cases "find p ds")
    case None
    then have "filter p ds = []" by (simp add: find_None_iff filter_empty_conv)
    with None assms show ?thesis by (simp add: findOneAndUpsert_def)
  next
    case (Some a)
    then show ?thesis
      using updateOne_const_keyed [of key ds p k ins] assms by (simp add: findOneAndUpsert_def)
  qed
qed

lemma grant_overwrite:
  "(\<lambda>d::access_grant. d\<lparr>g_recordId := a, g_patientAddress := b, g_professionalAddress := c,
      g_expirationTimestamp := e, g_rewrappedKey := k, g_createdAt := t\<rparr>)
   = (\<lambda>d. \<lparr>g_recordId = a, g_patientAddress = b, g_professionalAddress = c,
      g_expirationTimestamp = e, g_rewrappedKey = k, g_createdAt = t\<rparr>)"
  by (rule ext) simp

lemma accessGranted_grants:
  assumes "getBlock ev = Some b" and "rejects en = (\<lambda>k. None)"
  shows "grants (snd (handleAccessGranted r ow g ex k ev en s)) =
     findOneAndUpsert (\<lambda>d. grant_key d = (Number_of r, toLowerCase g))
       (\<lambda>d. \<lparr>g_recordId = Number_of r, g_patientAddress = toLowerCase ow,
              g_professionalAddress = toLowerCase g,
              g_expirationTimestamp = new_Date (Number_of ex * 1000),
              g_rewrappedKey = k, g_createdAt = new_Date (timestamp b * 1000)\<rparr>)
       \<lparr>g_recordId = Number_of r, g_patientAddress = toLowerCase ow,
         g_professionalAddress = toLowerCase g,
         g_expirationTimestamp = new_Date (Number_of ex * 1000),
         g_rewrappedKey = k, g_createdAt = new_Date (timestamp b * 1000)\<rparr> (grants s)"
  using assms
  by (simp add: handleAccessGranted_def handleAccessGranted_try_def try_catch_def Let_def
      logger_info_def grant_overwrite grant_key_def)

lemma accessGranted_unique:
  "distinct (map grant_key (grants s)) \<Longrightarrow>
   distinct (map grant_key (grants (snd (handleAccessGranted r ow g ex k ev en s))))"
  by (auto simp: handleAccessGranted_def handleAccessGranted_try_def try_catch_def Let_def
      logger_info_def logger_warn_def logger_error_def grant_overwrite
      split: option.splits
      intro!: upsert_keyed(1) [where k = "(Number_of r, toLowerCase g)"] simp: grant_key_def)

lemma dispatch_grants_unique:
  "distinct (map grant_key (grants s)) \<Longrightarrow>
   distinct (map grant_key (grants (snd (dispatch cev ev en s))))"
proof (cases cev)
  case (AccessGranted r ow g ex k)
  then show "distinct (map grant_key (grants s)) \<Longrightarrow> ?thesis"
    by (simp add: accessGranted_unique)
next
  case (AccessRevoked pa p rs)
  then show "distinct (map grant_key (grants s)) \<Longrightarrow> ?thesis"
    by (auto simp: handleAccessRevoked_def handleAccessRevoked_try_def try_catch_def Let_def
      logger_info_def logger_error_def deleteMany_def distinct_map_filter split: option.splits)
qed (auto simp: try_catch_def Let_def logger_info_def logger_warn_def logger_error_def
     handleRegistrationRequested_def handleRegistrationRequested_try_def
     handleHospitalVerified_def handleHospitalVerified_try_def
     handleHospitalRevoked_def handleHospitalRevoked_try_def
     handleRoleAssigned_def handleRoleAssigned_try_def
     handleRoleRevoked_def handleRoleRevoked_try_def
     handlePublicKeySaved_def handlePublicKeySaved_try_def
     handleRecordAdded_def handleRecordAdded_try_def
     handleProfessionalAccessRequested_def handleProfessionalAccessRequested_try_def
     split: option.splits)


text \<open>
  C3. Every handler keeps the keys (recordId, professionalAddress) of the grants distinct.
  From a store with distinct grant keys, two AccessGranted events for the same record and
  grantee whose blocks resolve, with a store that answers, leave exactly one grant under
  the key of the record and the lower-cased grantee, and it carries the expiration, the
  key and the block date of the second event.
\<close>

theorem accessGranted_overwrites:
  "(distinct (map grant_key (grants s)) \<longrightarrow>
      distinct (map grant_key (grants (snd (dispatch cev ev en s))))) \<and>
   (distinct (map grant_key (grants s)) \<and> getBlock eva = Some ba \<and> getBlock evb = Some bb \<and>
    rejects ena = (\<lambda>k. None) \<and> rejects enb = (\<lambda>k. None) \<longrightarrow>
      filter (\<lambda>d. grant_key d = (Number_of r, toLowerCase g))
        (grants (snd (handleAccessGranted r ow g eb kb evb enb
                   (snd (handleAccessGranted r ow g ea ka eva ena s)))))
      = [\<lparr>g_recordId = Number_of r, g_patientAddress = toLowerCase ow,
          g_professionalAddress = toLowerCase g,
          g_expirationTimestamp = new_Date (Number_of eb * 1000),
          g_rewrappedKey = kb, g_createdAt = new_Date (timestamp bb * 1000)\<rparr>])"
proof (intro conjI impI)
  assume "distinct (map grant_key (grants s))"
  then show "distinct (map grant_key (grants (snd (dispatch cev ev en s))))"
    by (rule dispatch_grants_unique)
next
  assume a: "distinct (map grant_key (grants s)) \<and> getBlock eva = Some ba \<and> getBlock evb = Some bb \<and>
    rejects ena = (\<lambda>k. None) \<and> rejects enb = (\<lambda>k. None)"
  let ?s1 = "snd (handleAccessGranted r ow g ea ka eva ena s)"
  let ?ins = "\<lparr>g_recordId = Number_of r, g_patientAddress = toLowerCase ow,
          g_professionalAddress = toLowerCase g,
          g_expirationTimestamp = new_Date (Number_of eb * 1000),
          g_rewrappedKey = kb, g_createdAt = new_Date (timestamp bb * 1000)\<rparr>"
  from a have d1: "distinct (map grant_key (grants ?s1))"
    by (simp add: accessGranted_unique)
  from a have g2: "grants (snd (handleAccessGranted r ow g eb kb evb enb ?s1)) =
      findOneAndUpsert (\<lambda>d. grant_key d = (Number_of r, toLowerCase g)) (\<lambda>d. ?ins) ?ins (grants ?s1)"
    by (simp add: accessGranted_grants)
  have k: "grant_key ?ins = (Number_of r, toLowerCase g)"
    by (simp add: grant_key_def)
  show "filter (\<lambda>d. grant_key d = (Number_of r, toLowerCase g))
        (grants (snd (handleAccessGranted r ow g eb kb evb enb ?s1))) = [?ins]"
    unfolding g2 using d1 k by (intro upsert_keyed(2) [where key = grant_key]) auto
qed

theorem accessGranted_overwrites_witness:
  "distinct (map grant_key (grants store_grants)) \<and>
   getBlock ev0 = Some \<lparr>timestamp = 1700000000\<rparr> \<and>
   rejects (no_faults (\<lambda>a. [])) = (\<lambda>k. None) \<and>
   distinct (map grant_key (grants (snd (dispatch (AccessGranted 1 ''0xAAA'' ''0xCCC'' 1800000000 ''kA'')
      ev0 (no_faults (\<lambda>a. [])) store_grants)))) \<and>
   filter (\<lambda>d. grant_key d = (Number_of 1, toLowerCase ''0xCCC''))
     (grants (snd (handleAccessGranted 1 ''0xAAA'' ''0xCCC'' 1900000000 ''kB'' ev0 (no_faults (\<lambda>a. []))
                (snd (handleAccessGranted 1 ''0xAAA'' ''0xCCC'' 1800000000 ''kA'' ev0
                   (no_faults (\<lambda>a. [])) store_grants)))))
     = [\<lparr>g_recordId = Number_of 1, g_patientAddress = toLowerCase ''0xAAA'',
         g_professionalAddress = toLowerCase ''0xCCC'',
         g_expirationTimestamp = new_Date (Number_of 1900000000 * 1000),
         g_rewrappedKey = ''kB'', g_createdAt = new_Date (timestamp \<lparr>timestamp = 1700000000\<rparr> * 1000)\<rparr>]"
proof -
  have a: "distinct (map grant_key (grants store_grants))"
    by (simp add: store_grants_def store0_def grant_key_def)
  have b: "getBlock ev0 = Some \<lparr>timestamp = 1700000000\<rparr>"
    by (simp add: ev0_def ContractEventPayload_def)
  have c: "rejects (no_faults (\<lambda>a. [])) = (\<lambda>k. None)"
    by (simp add: no_faults_def)
  note t1 = accessGranted_overwrites [where s = store_grants
      and cev = "AccessGranted 1 ''0xAAA'' ''0xCCC'' 1800000000 ''kA''" and ev = ev0
      and en = "no_faults (\<lambda>a. [])" and eva = ev0 and evb = ev0
      and ba = "\<lparr>timestamp = 1700000000\<rparr>" and bb = "\<lparr>timestamp = 1700000000\<rparr>"
      and ena = "no_faults (\<lambda>a. [])" and enb = "no_faults (\<lambda>a. [])"
      and r = 1 and g = "''0xCCC''" and ow = "''0xAAA''" and ea = 1800000000 and ka = "''kA''"
      and eb = 1900000000 and kb = "''kB''"]
  from t1 a b c show ?thesis by blast
qed

section \<open>Idempotence\<close>

lemma updateOne_idem:
  "(\<And>d. p d \<Longrightarrow> p (f d) \<and> f (f d) = f d) \<Longrightarrow>
   updateOne p f (updateOne p f ds) = updateOne p f ds"
  by (induction ds) auto

lemma upsert_idem:
  assumes "p ins" and "f ins = ins" and "\<And>d. p d \<Longrightarrow> p (f d) \<and> f (f d) = f d"
  shows "findOneAndUpsert p f ins (findOneAndUpsert p f ins ds) = findOneAndUpsert p f ins ds"
proof (cases "find p ds")
  case None
  then show ?thesis using assms
    by (simp add: findOneAndUpsert_def find_app updateOne_app_no_match)
next
  case (Some a)
  then show ?thesis using assms
    by (simp add: findOneAndUpsert_def find_updateOne updateOne_idem)
qed

lemma updateOne_kills:
  "distinct (map key ds) \<Longrightarrow> (\<And>d. p d \<Longrightarrow> key d = k \<and> key (f d) = key d \<and> \<not> p (f d)) \<Longrightarrow>
   find p (updateOne p f ds) = None"
proof (induction ds)
  case Nil
  then show ?case by simp
next
  case (Cons d ds)
  show ?case
  proof (cases "p d")
    case True
    with Cons.prems have "\<forall>x\<in>set ds. \<not> p x" by (fastforce simp: image_iff)
    then have "find p ds = None" by (simp add: find_None_iff)
    with True Cons.prems(2) show ?thesis by simp
  next
    case False
    with Cons show ?thesis by simp
  qed
qed

lemma registrationRequested_idem:
  "db (snd (handleRegistrationRequested i n a ev en (snd (handleRegistrationRequested i n a ev en s))))
   = db (snd (handleRegistrationRequested i n a ev en s))"
  by (auto simp: handleRegistrationRequested_def handleRegistrationRequested_try_def try_catch_def
      Let_def logger_info_def logger_error_def db_def upsert_idem split: option.splits)

lemma recordAdded_idem:
  "db (snd (handleRecordAdded i ow t ih c v vb ts ev en (snd (handleRecordAdded i ow t ih c v vb ts ev en s))))
   = db (snd (handleRecordAdded i ow t ih c v vb ts ev en s))"
  by (auto simp: handleRecordAdded_def handleRecordAdded_try_def try_catch_def
      Let_def logger_info_def logger_error_def db_def upsert_idem split: option.splits)

lemma professionalAccessRequested_idem:
  "db (snd (handleProfessionalAccessRequested i rs p pa ev en (snd (handleProfessionalAccessRequested i rs p pa ev en s))))
   = db (snd (handleProfessionalAccessRequested i rs p pa ev en s))"
  by (auto simp: handleProfessionalAccessRequested_def handleProfessionalAccessRequested_try_def
      try_catch_def Let_def logger_info_def logger_error_def db_def upsert_idem split: option.splits)

lemma accessGranted_idem:
  "db (snd (handleAccessGranted i ow g ex k ev en (snd (handleAccessGranted i ow g ex k ev en s))))
   = db (snd (handleAccessGranted i ow g ex k ev en s))"
  by (auto simp: handleAccessGranted_def handleAccessGranted_try_def
      try_catch_def Let_def logger_info_def logger_warn_def logger_error_def db_def upsert_idem
      split: option.splits)

lemma accessRevoked_idem:
  "db (snd (handleAccessRevoked pa p rs ev en (snd (handleAccessRevoked pa p rs ev en s))))
   = db (snd (handleAccessRevoked pa p rs ev en s))"
  by (auto simp: handleAccessRevoked_def handleAccessRevoked_try_def
      try_catch_def Let_def logger_info_def logger_error_def db_def deleteMany_def
      split: option.splits)

lemma roleAssigned_idem:
  "db (snd (handleRoleAssigned u r h ev en (snd (handleRoleAssigned u r h ev en s))))
   = db (snd (handleRoleAssigned u r h ev en s))"
  by (auto simp: handleRoleAssigned_def handleRoleAssigned_try_def findOneAndUpdate_def
      try_catch_def Let_def logger_info_def logger_error_def db_def updateOne_idem
      split: option.splits)

lemma roleRevoked_idem:
  "db (snd (handleRoleRevoked u ev en (snd (handleRoleRevoked u ev en s))))
   = db (snd (handleRoleRevoked u ev en s))"
  by (auto simp: handleRoleRevoked_def handleRoleRevoked_try_def findOneAndUpdate_def
      try_catch_def Let_def logger_info_def logger_error_def db_def updateOne_idem
      split: option.splits)

lemma publicKeySaved_idem:
  "db (snd (handlePublicKeySaved u ev en (snd (handlePublicKeySaved u ev en s))))
   = db (snd (handlePublicKeySaved u ev en s))"
  by (auto simp: handlePublicKeySaved_def handlePublicKeySaved_try_def findOneAndUpdate_def
      try_catch_def Let_def logger_info_def logger_error_def db_def updateOne_idem
      split: option.splits)


lemma requests_after_verified:
  "rejects en 0 = None \<Longrightarrow>
   requests (snd (handleHospitalVerified h a ev en s)) =
     updateOne (\<lambda>d. rr_requestId d = Number_of h \<and> rr_status d = ''verifying'')
       (\<lambda>d. d\<lparr>rr_status := ''approved''\<rparr>) (requests s)"
  by (auto simp: handleHospitalVerified_def handleHospitalVerified_try_def try_catch_def Let_def
      findOneAndUpdate_def logger_info_def logger_warn_def logger_error_def split: option.splits)

lemma hospitalVerified_rejected:
  "rejects en 0 = Some e \<Longrightarrow> db (snd (handleHospitalVerified h a ev en s)) = db s"
  by (simp add: handleHospitalVerified_def handleHospitalVerified_try_def try_catch_def Let_def
      logger_info_def logger_error_def db_def)

lemma hospitalVerified_idem:
  assumes "distinct (map rr_requestId (requests s))"
  shows "db (snd (handleHospitalVerified h a ev en (snd (handleHospitalVerified h a ev en s))))
         = db (snd (handleHospitalVerified h a ev en s))"
proof (cases "rejects en 0")
  case (Some e)
  then show ?thesis by (simp add: hospitalVerified_rejected)
next
  case None
  have "find (\<lambda>d. rr_requestId d = Number_of h \<and> rr_status d = ''verifying'')
          (requests (snd (handleHospitalVerified h a ev en s))) = None"
    unfolding requests_after_verified [OF None]
    using assms by (intro updateOne_kills [where key = rr_requestId and k = "Number_of h"]) auto
  then show ?thesis by (rule hospitalVerified_no_request(2))
qed

lemma hospitals_kill:
  assumes "distinct (map h_hospitalId hs)"
  shows "updateOne (\<lambda>d. h_hospitalId d = n \<and> h_status d = ''revoking'')
           (\<lambda>d. d\<lparr>h_status := ''revoked'', h_isVerified := False\<rparr>)
           (updateOne (\<lambda>d. h_hospitalId d = n \<and> h_status d = ''revoking'')
              (\<lambda>d. d\<lparr>h_status := ''revoked'', h_isVerified := False\<rparr>) hs)
         = updateOne (\<lambda>d. h_hospitalId d = n \<and> h_status d = ''revoking'')
              (\<lambda>d. d\<lparr>h_status := ''revoked'', h_isVerified := False\<rparr>) hs"
proof -
  have "find (\<lambda>d. h_hospitalId d = n \<and> h_status d = ''revoking'')
          (updateOne (\<lambda>d. h_hospitalId d = n \<and> h_status d = ''revoking'')
              (\<lambda>d. d\<lparr>h_status := ''revoked'', h_isVerified := False\<rparr>) hs) = None"
    using assms by (intro updateOne_kills [where key = h_hospitalId and k = n]) auto
  then show ?thesis by (rule updateOne_no_match)
qed

lemma hospitalRevoked_fields:
  "requests (snd (handleHospitalRevoked h ev en s)) = requests s"
  "records (snd (handleHospitalRevoked h ev en s)) = records s"
  "accessRequests (snd (handleHospitalRevoked h ev en s)) = accessRequests s"
  "grants (snd (handleHospitalRevoked h ev en s)) = grants s"
  "hospitals (snd (handleHospitalRevoked h ev en s)) =
     (if rejects en 0 = None
      then updateOne (\<lambda>d. h_hospitalId d = Number_of h \<and> h_status d = ''revoking'')
             (\<lambda>d. d\<lparr>h_status := ''revoked'', h_isVerified := False\<rparr>) (hospitals s)
      else hospitals s)"
  "users (snd (handleHospitalRevoked h ev en s)) =
     (if rejects en 0 = None \<and> rejects en 1 = None
      then map (\<lambda>u. if u_hospitalId u = Some (Number_of h)
                     then u\<lparr>u_professionalStatus := ''revoked'', u_isVerified := False\<rparr> else u) (users s)
      else users s)"
  by (simp_all add: handleHospitalRevoked_def handleHospitalRevoked_try_def try_catch_def Let_def
      findOneAndUpdate_def updateMany_def logger_info_def logger_error_def
      split: option.splits)

lemma hospitalRevoked_idem:
  assumes "distinct (map h_hospitalId (hospitals s))"
  shows "db (snd (handleHospitalRevoked h ev en (snd (handleHospitalRevoked h ev en s))))
         = db (snd (handleHospitalRevoked h ev en s))"
  unfolding db_def hospitalRevoked_fields
  using assms by (simp add: hospitals_kill)

text \<open>
  C7. From a store in which request ids and hospital ids are keys (no two documents share
  one), handling any of the ten events a second time, in the same environment, leaves
  the six collections as the first handling left them.
\<close>

theorem handlers_idempotent:
  assumes "distinct (map rr_requestId (requests s))"
    and "distinct (map h_hospitalId (hospitals s))"
  shows "db (snd (dispatch cev ev en (snd (dispatch cev ev en s)))) = db (snd (dispatch cev ev en s))"
proof (cases cev)
  case (RegistrationRequested i n a)
  then show ?thesis by (simp add: registrationRequested_idem)
next
  case (HospitalVerified h a)
  then show ?thesis using assms(1) by (simp add: hospitalVerified_idem)
next
  case (HospitalRevoked h)
  then show ?thesis using assms(2) by (simp add: hospitalRevoked_idem)
next
  case (RoleAssigned u r h)
  then show ?thesis by (simp add: roleAssigned_idem)
next
  case (RoleRevoked u)
  then show ?thesis by (simp add: roleRevoked_idem)
next
  case (PublicKeySaved u)
  then show ?thesis by (simp add: publicKeySaved_idem)
next
  case (RecordAdded i ow t ih c v vb ts)
  then show ?thesis by (simp add: recordAdded_idem)
next
  case (ProfessionalAccessRequested i rs p pa)
  then show ?thesis by (simp add: professionalAccessRequested_idem)
next
  case (AccessGranted i ow g ex k)
  then show ?thesis by (simp add: accessGranted_idem)
next
  case (AccessRevoked pa p rs)
  then show ?thesis by (simp add: accessRevoked_idem)
qed

theorem handlers_idempotent_witness:
  "distinct (map rr_requestId (requests store_verifying)) \<and>
   distinct (map h_hospitalId (hospitals store_verifying)) \<and>
   db (snd (dispatch (HospitalVerified 7 ''0xBBB'') ev0 (no_faults (\<lambda>a. []))
         (snd (dispatch (HospitalVerified 7 ''0xBBB'') ev0 (no_faults (\<lambda>a. [])) store_verifying))))
   = db (snd (dispatch (HospitalVerified 7 ''0xBBB'') ev0 (no_faults (\<lambda>a. [])) store_verifying))"
proof -
  have a: "distinct (map rr_requestId (requests store_verifying))"
    by (simp add: store_verifying_def store0_def)
  have b: "distinct (map h_hospitalId (hospitals store_verifying))"
    by (simp add: store_verifying_def store0_def)
  from handlers_idempotent [OF a b, where cev = "HospitalVerified 7 ''0xBBB''" and ev = ev0
      and en = "no_faults (\<lambda>a. [])"] a b
  show ?thesis by blast
qed

lemma map_key_updateOne:
  "(\<And>d. key (f d) = key d) \<Longrightarrow> map key (updateOne p f ds) = map key ds"
  by (induction ds) auto

lemma request_overwrite:
  "(\<lambda>d::registration_request. d\<lparr>rr_requestId := a, rr_hospitalName := b,
      rr_requesterAddress := c, rr_status := e\<rparr>)
   = (\<lambda>d. \<lparr>rr_requestId = a, rr_hospitalName = b, rr_requesterAddress = c, rr_status = e\<rparr>)"
  by (rule ext) simp

lemma hospital_overwrite:
  "(\<lambda>d::hospital. d\<lparr>h_hospitalId := a, h_name := b, h_adminAddress := c, h_isVerified := e,
      h_status := f\<rparr>)
   = (\<lambda>d. \<lparr>h_hospitalId = a, h_name = b, h_adminAddress = c, h_isVerified = e, h_status = f\<rparr>)"
  by (rule ext) simp

lemma dispatch_requests_unique:
  "distinct (map rr_requestId (requests s)) \<Longrightarrow>
   distinct (map rr_requestId (requests (snd (dispatch cev ev en s))))"
  by (cases cev)
    (auto simp: try_catch_def Let_def logger_info_def logger_warn_def logger_error_def
     handleRegistrationRequested_def handleRegistrationRequested_try_def
     handleHospitalVerified_def handleHospitalVerified_try_def
     handleHospitalRevoked_def handleHospitalRevoked_try_def
     handleRoleAssigned_def handleRoleAssigned_try_def
     handleRoleRevoked_def handleRoleRevoked_try_def
     handlePublicKeySaved_def handlePublicKeySaved_try_def
     handleRecordAdded_def handleRecordAdded_try_def
     handleProfessionalAccessRequested_def handleProfessionalAccessRequested_try_def
     handleAccessGranted_def handleAccessGranted_try_def
     handleAccessRevoked_def handleAccessRevoked_try_def
     findOneAndUpdate_def map_key_updateOne request_overwrite
     split: option.splits intro!: upsert_keyed(1))

lemma dispatch_hospitals_unique:
  "distinct (map h_hospitalId (hospitals s)) \<Longrightarrow>
   distinct (map h_hospitalId (hospitals (snd (dispatch cev ev en s))))"
  by (cases cev)
    (auto simp: try_catch_def Let_def logger_info_def logger_warn_def logger_error_def
     handleRegistrationRequested_def handleRegistrationRequested_try_def
     handleHospitalVerified_def handleHospitalVerified_try_def
     handleHospitalRevoked_def handleHospitalRevoked_try_def
     handleRoleAssigned_def handleRoleAssigned_try_def
     handleRoleRevoked_def handleRoleRevoked_try_def
     handlePublicKeySaved_def handlePublicKeySaved_try_def
     handleRecordAdded_def handleRecordAdded_try_def
     handleProfessionalAccessRequested_def handleProfessionalAccessRequested_try_def
     handleAccessGranted_def handleAccessGranted_try_def
     handleAccessRevoked_def handleAccessRevoked_try_def
     findOneAndUpdate_def map_key_updateOne hospital_overwrite
     split: option.splits intro!: upsert_keyed(1))

section \<open>Addresses stored as received\<close>

text \<open>
  C6. RegistrationRequested stores the requester's address as the event carries it, and
  HospitalVerified stores the admin's address on the Hospital document as the event
  carries it, while the User document of the same event gets the lower-cased address.
\<close>

theorem addresses_stored_as_received:
  "requests (snd (handleRegistrationRequested 7 ''Acme Clinic'' ''0xAAA'' ev0 (no_faults (\<lambda>a. [])) store0))
     = [\<lparr>rr_requestId = 7, rr_hospitalName = ''Acme Clinic'', rr_requesterAddress = ''0xAAA'',
         rr_status = ''pending_hospital''\<rparr>] \<and>
   toLowerCase ''0xAAA'' = ''0xaaa'' \<and>
   hospitals (snd (handleHospitalVerified 7 ''0xBBB'' ev0 (no_faults (\<lambda>a. [])) store_verifying))
     = [\<lparr>h_hospitalId = 7, h_name = ''Acme Clinic'', h_adminAddress = ''0xBBB'',
         h_isVerified = True, h_status = ''active''\<rparr>] \<and>
   map u_address (users (snd (handleHospitalVerified 7 ''0xBBB'' ev0 (no_faults (\<lambda>a. [])) store_verifying)))
     = [''0xbbb'']"
  by (simp add: handleRegistrationRequested_def handleRegistrationRequested_try_def
      handleHospitalVerified_def handleHospitalVerified_try_def try_catch_def Let_def
      logger_info_def no_faults_def store0_def store_verifying_def findOneAndUpsert_def
      findOneAndUpdate_def Number_of_def toLowerCase_def toLowerCase_char_def char_of_def
      bit_Suc_0_iff)

section \<open>The retry loop\<close>

lemma connect_throws:
  "timers (connectWebSocket url (ThrowsAt k e) mg) = timers mg @ [5000]"
  "attached (connectWebSocket url (ThrowsAt k e) mg) = []"
  "attempts (connectWebSocket url (ThrowsAt k e) mg) = attempts mg + 1"
  "elapsed (connectWebSocket url (ThrowsAt k e) mg) = elapsed mg"
  "\<exists>l. mlog (connectWebSocket url (ThrowsAt k e) mg) = l @
     [\<lparr>lvl = Error, msg = [Str ''Failed to initialize WebSocket provider: '', Str e,
         Str ''. Retrying in 5 seconds...''], tx = None\<rparr>]"
  by (simp_all add: connectWebSocket_def mlog_add_def Let_def)

lemma connect_succeeds:
  "timers (connectWebSocket url Succeeds mg) = timers mg"
  "attached (connectWebSocket url Succeeds mg) = contractEvents"
  "providerListeners (connectWebSocket url Succeeds mg) = [''network'', ''error'']"
  "attempts (connectWebSocket url Succeeds mg) = attempts mg + 1"
  "elapsed (connectWebSocket url Succeeds mg) = elapsed mg"
  by (simp_all add: connectWebSocket_def mlog_add_def Let_def)

lemma run_cons:
  "as \<noteq> [] \<Longrightarrow> run url (a # as) mg =
     (let m' = connectWebSocket url a mg
      in case timers m' of [] \<Rightarrow> m'
         | t # ts \<Rightarrow> run url as (m'\<lparr>timers := ts, elapsed := elapsed m' + t\<rparr>))"
  by (cases as) (auto simp: Let_def split: list.split)

lemma run_fail_then_succeed:
  "timers mg = [] \<Longrightarrow>
   attached (run url (map (case_prod ThrowsAt) fs @ [Succeeds]) mg) = contractEvents \<and>
   timers (run url (map (case_prod ThrowsAt) fs @ [Succeeds]) mg) = [] \<and>
   attempts (run url (map (case_prod ThrowsAt) fs @ [Succeeds]) mg) = attempts mg + length fs + 1 \<and>
   elapsed (run url (map (case_prod ThrowsAt) fs @ [Succeeds]) mg) = elapsed mg + 5000 * length fs"
proof (induction fs arbitrary: mg)
  case Nil
  then show ?case by (simp add: connect_succeeds)
next
  case (Cons f fs)
  obtain k e where f: "f = (k, e)" by (cases f)
  let ?m = "connectWebSocket url (ThrowsAt k e) mg"
  let ?n = "?m\<lparr>timers := [], elapsed := elapsed ?m + 5000\<rparr>"
  have r: "run url (map (case_prod ThrowsAt) (f # fs) @ [Succeeds]) mg =
           run url (map (case_prod ThrowsAt) fs @ [Succeeds]) ?n"
    using Cons.prems by (simp add: f run_cons connect_throws Let_def)
  have "timers ?n = []" by simp
  from Cons.IH [OF this] show ?case
    unfolding r by (simp add: connect_throws)
qed

lemma run_all_fail:
  "timers mg = [] \<Longrightarrow>
   timers (run url (map (case_prod ThrowsAt) (f # fs)) mg) = [5000] \<and>
   attached (run url (map (case_prod ThrowsAt) (f # fs)) mg) = [] \<and>
   attempts (run url (map (case_prod ThrowsAt) (f # fs)) mg) = attempts mg + length fs + 1"
proof (induction fs arbitrary: mg f)
  case Nil
  obtain k e where f: "f = (k, e)" by (cases f)
  from Nil show ?case by (simp add: f connect_throws)
next
  case (Cons g fs)
  obtain k e where f: "f = (k, e)" by (cases f)
  let ?m = "connectWebSocket url (ThrowsAt k e) mg"
  let ?n = "?m\<lparr>timers := [], elapsed := elapsed ?m + 5000\<rparr>"
  have r: "run url (map (case_prod ThrowsAt) (f # g # fs)) mg =
           run url (map (case_prod ThrowsAt) (g # fs)) ?n"
    using Cons.prems by (simp add: f run_cons connect_throws Let_def)
  have "timers ?n = []" by simp
  from Cons.IH [OF this, of g] show ?case
    unfolding r by (simp add: connect_throws)
qed

lemma manager0_timers: "timers manager0 = [] \<and> attempts manager0 = 0 \<and> elapsed manager0 = 0"
  by (simp add: manager0_def)

text \<open>
  C1, as amended. An attempt that throws while the provider, the contract or the
  listeners are set up logs the failure, leaves no contract listener attached and
  schedules one call of connectWebSocket after 5000 milliseconds. However many attempts
  fail in a row, one retry is pending after the last of them; when an attempt succeeds
  after any number of failures, the ten contract listeners are attached, no timer is
  pending, and 5000 milliseconds have elapsed per failure. The provider's error listener
  only appends one error entry to the log.
\<close>

theorem connectWebSocket_retries:
  "timers (connectWebSocket url (ThrowsAt k e) mg) = timers mg @ [5000] \<and>
   attached (connectWebSocket url (ThrowsAt k e) mg) = [] \<and>
   (\<exists>l. mlog (connectWebSocket url (ThrowsAt k e) mg) = l @
     [\<lparr>lvl = Error, msg = [Str ''Failed to initialize WebSocket provider: '', Str e,
         Str ''. Retrying in 5 seconds...''], tx = None\<rparr>]) \<and>
   timers (run url (map (case_prod ThrowsAt) (f # fs)) manager0) = [5000] \<and>
   attempts (run url (map (case_prod ThrowsAt) (f # fs)) manager0) = length fs + 1 \<and>
   attached (run url (map (case_prod ThrowsAt) fs @ [Succeeds]) manager0) = contractEvents \<and>
   length contractEvents = 10 \<and> distinct contractEvents \<and>
   timers (run url (map (case_prod ThrowsAt) fs @ [Succeeds]) manager0) = [] \<and>
   attempts (run url (map (case_prod ThrowsAt) fs @ [Succeeds]) manager0) = length fs + 1 \<and>
   elapsed (run url (map (case_prod ThrowsAt) fs @ [Succeeds]) manager0) = 5000 * length fs \<and>
   onProviderError e mg = mg\<lparr>mlog := mlog mg @
     [\<lparr>lvl = Error, msg = [Str ''WebSocket Provider Error: '', Str e], tx = None\<rparr>]\<rparr>"
proof -
  have t: "timers manager0 = []" by (simp add: manager0_def)
  have c: "length contractEvents = 10 \<and> distinct contractEvents"
    by (simp add: contractEvents_def)
  have p: "onProviderError e mg = mg\<lparr>mlog := mlog mg @
     [\<lparr>lvl = Error, msg = [Str ''WebSocket Provider Error: '', Str e], tx = None\<rparr>]\<rparr>"
    by (simp add: onProviderError_def mlog_add_def)
  from run_fail_then_succeed [OF t, of url fs] run_all_fail [OF t, of url f fs]
    connect_throws [of url k e mg] c p manager0_timers
  show ?thesis by simp
qed

text \<open>
  C1, as stated, fails: a malformed endpoint schedules a retry, and a provider error
  after a successful connection schedules none and starts no new attempt.
\<close>

theorem provider_error_schedules_no_retry:
  "timers (connectWebSocket ''wss://node'' (ThrowsAt 0 ''bad url'') manager0) = [5000] \<and>
   timers (onProviderError ''socket closed'' (connectWebSocket ''wss://node'' Succeeds manager0)) = [] \<and>
   attempts (onProviderError ''socket closed'' (connectWebSocket ''wss://node'' Succeeds manager0)) = 1"
  by (simp add: connectWebSocket_def onProviderError_def mlog_add_def manager0_def Let_def)


end
